theory Spec2Isabelle
  imports Main "HOL-Library.AList"
begin

section \<open>Deployment utilities: data model\<close>

text \<open>
  The development embeds the deployment helpers of the repository
  (\<^verbatim>\<open>createOrGetDeployLog\<close>, \<^verbatim>\<open>getProvider\<close>, \<^verbatim>\<open>getWallet\<close>,
  \<^verbatim>\<open>verifyEnoughBalance\<close>, \<^verbatim>\<open>verifyContract\<close>, \<^verbatim>\<open>deployContract\<close> and
  \<^verbatim>\<open>upgradeContract\<close>).  Every source function keeps its name.  The collaborators
  the helpers call (hardhat, the zkSync deployer, the upgrades plugin, the explorer
  verification service) are fields of a record \<open>world\<close>: each field gives the outcome of
  one external call, either a thrown value or a result.  The file system and the
  sequence of external calls made so far are the explicit state.

  Console output is not part of the model, so the option \<^verbatim>\<open>silent\<close> is carried
  but never read.  Addresses, byte code, ABIs and constructor arguments are opaque
  strings, except that a constructor argument may be a bigint.  Amounts are JavaScript bigints, hence \<open>int\<close>.  Creating the log
  directory is taken to succeed; reading, parsing and writing the ledger file and
  every collaborator may fail.
\<close>

type_synonym address = string

text \<open>
  The deploy log is a JavaScript object with string keys and address values.
  An association list holds the own properties in insertion order; \<open>map_of\<close> reads
  an own property.
\<close>

type_synonym ledger = "(string \<times> address) list"

text \<open>
  The object's prototype is \<^verbatim>\<open>Object.prototype\<close>, for the literal \<^verbatim>\<open>{}\<close> and for what
  \<^verbatim>\<open>JSON.parse\<close> returns alike.  Reading \<^verbatim>\<open>deployLog[key]\<close> gives the own property
  when there is one, else the member of \<^verbatim>\<open>Object.prototype\<close> of that name when there is
  one, else \<^verbatim>\<open>undefined\<close>.
\<close>

definition object_prototype_members :: "string list" where
  "object_prototype_members =
     [''constructor'', ''__defineGetter__'', ''__defineSetter__'', ''hasOwnProperty'',
      ''__lookupGetter__'', ''__lookupSetter__'', ''isPrototypeOf'', ''propertyIsEnumerable'',
      ''toString'', ''valueOf'', ''__proto__'', ''toLocaleString'']"

datatype js_value = Undefined | Address address | Inherited string

definition js_get :: "ledger \<Rightarrow> string \<Rightarrow> js_value" where
  "js_get l key =
     (case map_of l key of
        Some a \<Rightarrow> Address a
      | None \<Rightarrow> if key \<in> set object_prototype_members then Inherited key else Undefined)"

text \<open>
  Truthiness: \<^verbatim>\<open>undefined\<close> and the empty string are falsy; the members of
  \<^verbatim>\<open>Object.prototype\<close> are functions, or the prototype itself, hence truthy.
\<close>

fun js_truthy :: "js_value \<Rightarrow> bool" where
  "js_truthy Undefined = False"
| "js_truthy (Address a) = (a \<noteq> [])"
| "js_truthy (Inherited _) = True"

text \<open>
  Assigning \<^verbatim>\<open>deployLog[key] = address\<close> sets the own property, in place when it
  exists and appended otherwise.  The one exception is the key \<^verbatim>\<open>__proto__\<close> on an
  object that has no such own property: the assignment reaches the setter of
  \<^verbatim>\<open>Object.prototype\<close>, which ignores a string, and the object is left as it was.
\<close>

definition js_set :: "string \<Rightarrow> address \<Rightarrow> ledger \<Rightarrow> ledger" where
  "js_set key a l =
     (if key = ''__proto__'' \<and> map_of l key = None then l else AList.update key a l)"

text \<open>
  A constructor argument: a value that \<^verbatim>\<open>JSON.stringify\<close> renders, with its
  rendering, or a bigint, on which \<^verbatim>\<open>JSON.stringify\<close> throws a \<^verbatim>\<open>TypeError\<close>.
\<close>

datatype js_arg = Json_arg string | BigInt_arg int

record artifact =
  contractName :: string
  sourceName :: string
  bytecode :: string
  abi :: string

record wallet =
  wallet_address :: address
  wallet_privateKey :: string

text \<open>
  A contract handle: \<open>target\<close> is what \<^verbatim>\<open>contract.getAddress()\<close> resolves to,
  \<open>interface\<close> the ABI the handle was built from.
\<close>

record contract =
  target :: address
  interface :: string

datatype proxy_kind = Uups | Transparent | Beacon

text \<open>
  \<^verbatim>\<open>DeployContractOptions\<close>: every field is optional, and the options object as a
  whole is optional too (\<^verbatim>\<open>options?.upgradable\<close>).
\<close>

record options =
  silent :: "bool option"
  noVerify :: "bool option"
  wallet_opt :: "wallet option"
  upgradable :: "bool option"
  kind :: "proxy_kind option"
  unsafeAllow :: "string list option"

text \<open>
  A value thrown by a collaborator.  The source only ever reads its \<^verbatim>\<open>message\<close>
  property, and only through \<^verbatim>\<open>error?.message?.includes\<close>; the number stands for
  the rest of the value.
\<close>

datatype js_error = Js_error (message: "string option") (payload: nat)

text \<open>
  What the helpers throw.  The constructors stand for the \<^verbatim>\<open>throw\<close> statements
  of the source:
  \<^item> \<open>RpcUrlNotFound\<close>: the string thrown by \<^verbatim>\<open>getProvider\<close>, with the network name;
  \<^item> \<open>WalletKeyNotFound\<close>: the string thrown by \<^verbatim>\<open>getWallet\<close>;
  \<^item> \<open>ArtifactNotFound\<close>: the string thrown in the \<^verbatim>\<open>catch\<close> of \<^verbatim>\<open>loadArtifact\<close>,
    carried as it is;
  \<^item> \<open>InsufficientBalance\<close>: the string thrown by \<^verbatim>\<open>verifyEnoughBalance\<close>, which
    prints the required amount, the wallet address and the balance;
  \<^item> \<open>ProxyNotFound\<close>: the \<^verbatim>\<open>Error\<close> "Proxy address not found! Please deploy the
    contract first.";
  \<^item> \<open>UpgradeRequiresUpgradableFlag\<close>: the string "Upgrade contract must be
    upgradable!";
  \<^item> \<open>JsonSyntaxError\<close>, \<open>ReadIsDirectory\<close>, \<open>WriteFailed\<close>: what
    \<^verbatim>\<open>JSON.parse\<close>, \<^verbatim>\<open>fs.readFileSync\<close> and \<^verbatim>\<open>fs.writeFileSync\<close> throw;
  \<^item> \<open>StringifyTypeError\<close>: the \<^verbatim>\<open>TypeError\<close> of \<^verbatim>\<open>JSON.stringify\<close> on a bigint;
  \<^item> \<open>Foreign\<close>: a value thrown by a collaborator, passed on as it is.
\<close>

datatype thrown =
    RpcUrlNotFound string
  | WalletKeyNotFound
  | ArtifactNotFound string
  | InsufficientBalance int address int
  | ProxyNotFound
  | UpgradeRequiresUpgradableFlag
  | JsonSyntaxError
  | ReadIsDirectory string
  | WriteFailed string
  | StringifyTypeError
  | Foreign js_error

subsection \<open>File system\<close>

text \<open>
  The text of a file is represented by what \<^verbatim>\<open>JSON.parse\<close> makes of it: a flat
  object from keys to address strings, or a syntax error.
  \<^verbatim>\<open>JSON.stringify(deployLog, null, 2)\<close> produces the text that parses back to
  \<open>deployLog\<close>.
\<close>

datatype file_text = Malformed_text | Ledger_text ledger

record filesystem =
  fs_dirs :: "string list"
  fs_files :: "(string \<times> file_text) list"

definition existsSync :: "string \<Rightarrow> filesystem \<Rightarrow> bool" where
  "existsSync p fs = (p \<in> set (fs_dirs fs) \<or> map_of (fs_files fs) p \<noteq> None)"

definition mkdirSync :: "string \<Rightarrow> filesystem \<Rightarrow> filesystem" where
  "mkdirSync p fs = fs\<lparr>fs_dirs := p # fs_dirs fs\<rparr>"

definition readFileSync :: "string \<Rightarrow> filesystem \<Rightarrow> thrown + file_text" where
  "readFileSync p fs =
     (case map_of (fs_files fs) p of
        None \<Rightarrow> Inl (ReadIsDirectory p)
      | Some t \<Rightarrow> Inr t)"

text \<open>The file system after a write to \<open>p\<close> that succeeded.\<close>

definition written :: "string \<Rightarrow> file_text \<Rightarrow> filesystem \<Rightarrow> filesystem" where
  "written p t fs = fs\<lparr>fs_files := AList.update p t (fs_files fs)\<rparr>"

definition JSON_parse :: "file_text \<Rightarrow> thrown + ledger" where
  "JSON_parse t = (case t of Malformed_text \<Rightarrow> Inl JsonSyntaxError | Ledger_text l \<Rightarrow> Inr l)"

definition JSON_stringify :: "ledger \<Rightarrow> file_text" where
  "JSON_stringify l = Ledger_text l"

text \<open>\<^verbatim>\<open>path.dirname\<close> on a path with a directory part: the text before the last slash.\<close>

definition path_dirname :: "string \<Rightarrow> string" where
  "path_dirname p = rev (drop 1 (dropWhile (\<lambda>c. c \<noteq> CHR ''/'') (rev p)))"

text \<open>
  \<^verbatim>\<open>fs.writeFileSync\<close> throws when the directory of the path is not a directory
  (it is missing, or a regular file) and when the path itself is a directory.
\<close>

definition write_error :: "string \<Rightarrow> filesystem \<Rightarrow> thrown option" where
  "write_error p fs =
     (if path_dirname p \<notin> set (fs_dirs fs) \<or> p \<in> set (fs_dirs fs)
      then Some (WriteFailed p) else None)"

definition writeFileSync :: "string \<Rightarrow> file_text \<Rightarrow> filesystem \<Rightarrow> thrown + filesystem" where
  "writeFileSync p t fs =
     (case write_error p fs of Some e \<Rightarrow> Inl e | None \<Rightarrow> Inr (written p t fs))"

text \<open>
  \<^verbatim>\<open>JSON.stringify(constructorArguments, null, 2)\<close>, written inside the argument of
  \<^verbatim>\<open>log\<close> and so evaluated whether or not the run is silent.  \<^verbatim>\<open>undefined\<close> is
  rendered as \<^verbatim>\<open>undefined\<close>; an array with a bigint in it makes the call throw.
\<close>

fun render_arg :: "js_arg \<Rightarrow> thrown + string" where
  "render_arg (Json_arg text) = Inr text"
| "render_arg (BigInt_arg n) = Inl StringifyTypeError"

fun render_args :: "js_arg list \<Rightarrow> thrown + string list" where
  "render_args [] = Inr []"
| "render_args (x # xs) =
     (case render_arg x of
        Inl e \<Rightarrow> Inl e
      | Inr t \<Rightarrow> (case render_args xs of Inl e \<Rightarrow> Inl e | Inr ts \<Rightarrow> Inr (t # ts)))"

definition JSON_stringify_arguments :: "js_arg list option \<Rightarrow> thrown + string list option" where
  "JSON_stringify_arguments constructorArguments =
     (case constructorArguments of
        None \<Rightarrow> Inr None
      | Some xs \<Rightarrow> (case render_args xs of Inl e \<Rightarrow> Inl e | Inr ts \<Rightarrow> Inr (Some ts)))"

subsection \<open>Collaborators and state\<close>

record verify_request =
  vr_address :: address
  vr_contract :: string
  vr_constructorArguments :: string
  vr_bytecode :: string

record world =
  zkLinkRoot :: string
  network_name :: string
  network_url :: "string option"
  network_verifyURL :: "string option"
  env_WALLET_PRIVATE_KEY :: "string option"
  newWallet :: "string \<Rightarrow> js_error + wallet"
  loadArtifact :: "string \<Rightarrow> js_error + artifact"
  estimateDeployFee :: "artifact \<Rightarrow> js_arg list \<Rightarrow> js_error + int"
  getBalance :: "wallet \<Rightarrow> js_error + int"
  deploy :: "artifact \<Rightarrow> js_arg list option \<Rightarrow> js_error + contract"
  deployProxy ::
    "artifact \<Rightarrow> js_arg list option \<Rightarrow> proxy_kind option \<Rightarrow> string list option
       \<Rightarrow> js_arg list option \<Rightarrow> js_error + contract"
  upgradeProxy ::
    "js_value \<Rightarrow> artifact \<Rightarrow> string list option \<Rightarrow> js_arg list option \<Rightarrow> js_error + unit"
  getImplementationAddress :: "js_value \<Rightarrow> js_error + address"
  getContractAt :: "string \<Rightarrow> js_value \<Rightarrow> js_error + contract"
  encodeDeploy :: "contract \<Rightarrow> js_arg list option \<Rightarrow> js_error + string"
  run_verify :: "verify_request \<Rightarrow> js_error + nat"

text \<open>The external calls a run makes, in order.\<close>

datatype call =
    Call_loadArtifact string
  | Call_estimateDeployFee string
  | Call_getBalance address
  | Call_deploy string
  | Call_deployProxy string
  | Call_upgradeProxy js_value string
  | Call_getImplementationAddress js_value
  | Call_getContractAt js_value
  | Call_verify verify_request
  | Call_sleep nat

text \<open>The calls that submit a transaction to the chain.\<close>

fun chain_submitting :: "call \<Rightarrow> bool" where
  "chain_submitting (Call_deploy _) = True"
| "chain_submitting (Call_deployProxy _) = True"
| "chain_submitting (Call_upgradeProxy _ _) = True"
| "chain_submitting _ = False"

record state =
  st_fs :: filesystem
  st_calls :: "call list"

text \<open>
  A computation reads and updates the state and either throws or returns.
  An \<^verbatim>\<open>await\<close> of a rejected promise throws, so asynchronous and synchronous
  failures are the same branch.
\<close>

type_synonym 'a io = "state \<Rightarrow> (thrown + 'a) \<times> state"

definition return_io :: "'a \<Rightarrow> 'a io" where
  "return_io a = (\<lambda>s. (Inr a, s))"

definition throw_io :: "thrown \<Rightarrow> 'a io" where
  "throw_io e = (\<lambda>s. (Inl e, s))"

definition bind_io :: "'a io \<Rightarrow> ('a \<Rightarrow> 'b io) \<Rightarrow> 'b io" where
  "bind_io m f = (\<lambda>s. case m s of (Inl e, s') \<Rightarrow> (Inl e, s') | (Inr a, s') \<Rightarrow> f a s')"

text \<open>A synchronous helper that may throw and touches no state.\<close>

definition lift_io :: "thrown + 'a \<Rightarrow> 'a io" where
  "lift_io r = (\<lambda>s. (r, s))"

text \<open>An external call: it is recorded, and what the collaborator throws is passed on.\<close>

definition external :: "call \<Rightarrow> js_error + 'a \<Rightarrow> 'a io" where
  "external c r =
     (\<lambda>s. (case r of Inl e \<Rightarrow> Inl (Foreign e) | Inr a \<Rightarrow> Inr a, s\<lparr>st_calls := st_calls s @ [c]\<rparr>))"

definition modify_fs :: "(filesystem \<Rightarrow> filesystem) \<Rightarrow> unit io" where
  "modify_fs f = (\<lambda>s. (Inr (), s\<lparr>st_fs := f (st_fs s)\<rparr>))"

text \<open>A file operation that may throw; the file system is left as it was when it does.\<close>

definition try_fs :: "(filesystem \<Rightarrow> thrown + filesystem) \<Rightarrow> unit io" where
  "try_fs f =
     (\<lambda>s. case f (st_fs s) of
             Inl e \<Rightarrow> (Inl e, s)
           | Inr fs \<Rightarrow> (Inr (), s\<lparr>st_fs := fs\<rparr>))"

text \<open>JavaScript truthiness of an optional string and of an optional boolean.\<close>

definition truthy_string :: "string option \<Rightarrow> bool" where
  "truthy_string v = (case v of None \<Rightarrow> False | Some s \<Rightarrow> s \<noteq> [])"

definition truthy_bool :: "bool option \<Rightarrow> bool" where
  "truthy_bool v = (case v of None \<Rightarrow> False | Some b \<Rightarrow> b)"

text \<open>\<^verbatim>\<open>options?.field\<close>: undefined when the options object is.\<close>

definition optional :: "(options \<Rightarrow> 'a option) \<Rightarrow> options option \<Rightarrow> 'a option" where
  "optional field opts = (case opts of None \<Rightarrow> None | Some v \<Rightarrow> field v)"

text \<open>\<^verbatim>\<open>String.prototype.includes\<close>.\<close>

fun str_includes :: "string \<Rightarrow> string \<Rightarrow> bool" where
  "str_includes [] needle = (needle = [])"
| "str_includes (c # cs) needle = (take (length needle) (c # cs) = needle \<or> str_includes cs needle)"

text \<open>The sign that starts most thrown strings, U+26D4 U+FE0F, as its UTF-8 bytes.\<close>

definition no_entry :: string where
  "no_entry = [CHR 0xE2, CHR 0x9B, CHR 0x94, CHR 0xEF, CHR 0xB8, CHR 0x8F]"

section \<open>The helpers\<close>

definition deployLogPath_of :: "string \<Rightarrow> string \<Rightarrow> string" where
  "deployLogPath_of root networkName = root @ ''/log/'' @ networkName @ ''.log''"

definition createOrGetDeployLog :: "string \<Rightarrow> string \<Rightarrow> (string \<times> ledger) io" where
  "createOrGetDeployLog root networkName =
     (let deployLogPath = deployLogPath_of root networkName;
          logPath = path_dirname deployLogPath
      in bind_io (\<lambda>s. if \<not> existsSync logPath (st_fs s)
                       then modify_fs (mkdirSync logPath) s
                       else return_io () s) (\<lambda>_.
         bind_io (\<lambda>s. if existsSync deployLogPath (st_fs s)
                       then bind_io (lift_io (readFileSync deployLogPath (st_fs s)))
                              (\<lambda>data. lift_io (JSON_parse data)) s
                       else return_io [] s) (\<lambda>deployLog.
         return_io (deployLogPath, deployLog))))"

definition getProvider :: "world \<Rightarrow> thrown + string" where
  "getProvider w =
     (if \<not> truthy_string (network_url w) then Inl (RpcUrlNotFound (network_name w))
      else Inr (case network_url w of Some u \<Rightarrow> u | None \<Rightarrow> []))"

definition getWallet :: "world \<Rightarrow> string option \<Rightarrow> thrown + wallet" where
  "getWallet w privateKey =
     (if \<not> truthy_string privateKey \<and> \<not> truthy_string (env_WALLET_PRIVATE_KEY w)
      then Inl WalletKeyNotFound
      else case getProvider w of
             Inl e \<Rightarrow> Inl e
           | Inr provider \<Rightarrow>
               (case newWallet w
                       (case privateKey of
                          Some k \<Rightarrow> k
                        | None \<Rightarrow> (case env_WALLET_PRIVATE_KEY w of Some k \<Rightarrow> k | None \<Rightarrow> []))
                of Inl e \<Rightarrow> Inl (Foreign e)
                 | Inr wl \<Rightarrow> Inr wl))"

text \<open>\<^verbatim>\<open>options?.wallet ?? getWallet()\<close>.\<close>

definition wallet_or_default :: "world \<Rightarrow> options option \<Rightarrow> thrown + wallet" where
  "wallet_or_default w opts =
     (case optional wallet_opt opts of Some wl \<Rightarrow> Inr wl | None \<Rightarrow> getWallet w None)"

definition verifyEnoughBalance :: "world \<Rightarrow> wallet \<Rightarrow> int \<Rightarrow> unit io" where
  "verifyEnoughBalance w wl amount =
     bind_io (external (Call_getBalance (wallet_address wl)) (getBalance w wl)) (\<lambda>balance.
       if balance < amount
       then throw_io (InsufficientBalance amount (wallet_address wl) balance)
       else return_io ())"

definition verifyContract :: "world \<Rightarrow> verify_request \<Rightarrow> nat io" where
  "verifyContract w data = external (Call_verify data) (run_verify w data)"

text \<open>
  The \<^verbatim>\<open>catch\<close> on \<^verbatim>\<open>deployer.loadArtifact\<close>, the same in both functions but for the
  string thrown.
\<close>

definition artifact_needle :: "string \<Rightarrow> string" where
  "artifact_needle contractArtifactName =
     ''Artifact for contract '' @ [CHR 0x22] @ contractArtifactName @ [CHR 0x22] @ '' not found.''"

text \<open>
  The test of the \<^verbatim>\<open>catch\<close>:
  \<^verbatim>\<open>error?.message?.includes(`Artifact for contract "${contractArtifactName}" not found.`)\<close>.
\<close>

definition reports_missing_artifact :: "string \<Rightarrow> js_error \<Rightarrow> bool" where
  "reports_missing_artifact contractArtifactName error =
     (case message error of
        None \<Rightarrow> False
      | Some m \<Rightarrow> str_includes m (artifact_needle contractArtifactName))"

definition loadArtifact_catch :: "world \<Rightarrow> string \<Rightarrow> string \<Rightarrow> artifact io" where
  "loadArtifact_catch w thrown_string contractArtifactName =
     (\<lambda>s. case loadArtifact w contractArtifactName of
             Inr a \<Rightarrow> (Inr a, s\<lparr>st_calls := st_calls s @ [Call_loadArtifact contractArtifactName]\<rparr>)
           | Inl error \<Rightarrow>
               (if reports_missing_artifact contractArtifactName error
                then Inl (ArtifactNotFound thrown_string)
                else Inl (Foreign error),
                s\<lparr>st_calls := st_calls s @ [Call_loadArtifact contractArtifactName]\<rparr>))"

definition compile_hint :: string where
  "compile_hint =
     ''Please make sure you have compiled your contracts or specified the correct contract name!''"

definition or_empty :: "js_arg list option \<Rightarrow> js_arg list" where
  "or_empty args = (case args of None \<Rightarrow> [] | Some a \<Rightarrow> a)"

definition implementation_suffix :: string where
  "implementation_suffix = ''_Implementation''"

definition implementation_key :: "string \<Rightarrow> string" where
  "implementation_key name = name @ implementation_suffix"

definition deployContract ::
    "world \<Rightarrow> string \<Rightarrow> js_arg list option \<Rightarrow> options option \<Rightarrow> js_arg list option
       \<Rightarrow> contract io" where
  "deployContract w contractArtifactName constructorArguments opts initializerArguments =
     bind_io (createOrGetDeployLog (zkLinkRoot w) (network_name w)) (\<lambda>(deployLogPath, deployLog).
     bind_io (lift_io (wallet_or_default w opts)) (\<lambda>wl.
     bind_io (loadArtifact_catch w (no_entry @ '' '' @ compile_hint) contractArtifactName)
       (\<lambda>artifact.
     let name = contractName artifact in
     bind_io (external (Call_estimateDeployFee name)
                (estimateDeployFee w artifact (or_empty constructorArguments))) (\<lambda>deploymentFee.
     bind_io (verifyEnoughBalance w wl deploymentFee) (\<lambda>_.
     bind_io (lift_io (JSON_stringify_arguments constructorArguments)) (\<lambda>_.
     bind_io (if truthy_bool (optional upgradable opts)
              then external (Call_deployProxy name)
                     (deployProxy w artifact initializerArguments (optional kind opts)
                        (optional unsafeAllow opts) constructorArguments)
              else external (Call_deploy name) (deploy w artifact constructorArguments))
       (\<lambda>contract.
     let address = target contract in
     bind_io (lift_io (case encodeDeploy w contract constructorArguments of
                         Inl e \<Rightarrow> Inl (Foreign e) | Inr x \<Rightarrow> Inr x)) (\<lambda>constructorArgs.
     let fullContractSource = sourceName artifact @ '':'' @ name;
         deployLog1 = js_set name address deployLog
     in
     bind_io (if truthy_bool (optional upgradable opts)
              then bind_io (lift_io (getProvider w)) (\<lambda>provider.
                   bind_io (external (Call_getImplementationAddress (Address address))
                              (getImplementationAddress w (Address address)))
                     (\<lambda>implementationAddress.
                   return_io (js_set (implementation_key name) implementationAddress
                                deployLog1)))
              else return_io deployLog1) (\<lambda>deployLog2.
     bind_io (try_fs (writeFileSync deployLogPath (JSON_stringify deployLog2))) (\<lambda>_.
     bind_io (if \<not> truthy_bool (optional noVerify opts) \<and> truthy_string (network_verifyURL w)
              then bind_io (verifyContract w
                              \<lparr>vr_address = address, vr_contract = fullContractSource,
                               vr_constructorArguments = constructorArgs,
                               vr_bytecode = bytecode artifact\<rparr>) (\<lambda>_. return_io ())
              else return_io ()) (\<lambda>_.
     return_io contract)))))))))))"

definition upgradeContract ::
    "world \<Rightarrow> string \<Rightarrow> js_arg list option \<Rightarrow> options option \<Rightarrow> contract io" where
  "upgradeContract w contractArtifactName constructorArguments opts =
     bind_io (createOrGetDeployLog (zkLinkRoot w) (network_name w)) (\<lambda>(deployLogPath, deployLog).
     bind_io (lift_io (wallet_or_default w opts)) (\<lambda>wl.
     bind_io (loadArtifact_catch w compile_hint contractArtifactName) (\<lambda>artifact.
     let name = contractName artifact in
     bind_io (external (Call_estimateDeployFee name)
                (estimateDeployFee w artifact (or_empty constructorArguments))) (\<lambda>deploymentFee.
     bind_io (verifyEnoughBalance w wl deploymentFee) (\<lambda>_.
     bind_io (lift_io (JSON_stringify_arguments constructorArguments)) (\<lambda>_.
     bind_io (if truthy_bool (optional upgradable opts)
              then (let proxyAddress = js_get deployLog name in
                    if \<not> js_truthy proxyAddress then throw_io ProxyNotFound
                    else
                      bind_io (external (Call_upgradeProxy proxyAddress name)
                                 (upgradeProxy w proxyAddress artifact
                                    (optional unsafeAllow opts) constructorArguments)) (\<lambda>_.
                      bind_io (external (Call_sleep 2000) (Inr ())) (\<lambda>_.
                      bind_io (lift_io (getProvider w)) (\<lambda>provider.
                      bind_io (external (Call_getImplementationAddress proxyAddress)
                                 (getImplementationAddress w proxyAddress))
                        (\<lambda>implementationAddress.
                      let deployLog1 = js_set (implementation_key name)
                                         implementationAddress deployLog
                      in bind_io (try_fs (writeFileSync deployLogPath
                                            (JSON_stringify deployLog1))) (\<lambda>_.
                         return_io deployLog1))))))
              else throw_io UpgradeRequiresUpgradableFlag) (\<lambda>deployLog1.
     bind_io (external (Call_getContractAt (js_get deployLog1 name))
                (getContractAt w (abi artifact) (js_get deployLog1 name))) (\<lambda>contract.
     let address = target contract in
     bind_io (lift_io (case encodeDeploy w contract constructorArguments of
                         Inl e \<Rightarrow> Inl (Foreign e) | Inr x \<Rightarrow> Inr x)) (\<lambda>constructorArgs.
     let fullContractSource = sourceName artifact @ '':'' @ name in
     bind_io (if \<not> truthy_bool (optional noVerify opts) \<and> truthy_string (network_verifyURL w)
              then bind_io (verifyContract w
                              \<lparr>vr_address = address, vr_contract = fullContractSource,
                               vr_constructorArguments = constructorArgs,
                               vr_bytecode = bytecode artifact\<rparr>) (\<lambda>_. return_io ())
              else return_io ()) (\<lambda>_.
     return_io contract))))))))))"

text \<open>The ledger a network's file holds: what a later load would return.\<close>

definition ledger_of :: "world \<Rightarrow> filesystem \<Rightarrow> ledger" where
  "ledger_of w fs =
     (case map_of (fs_files fs) (deployLogPath_of (zkLinkRoot w) (network_name w)) of
        Some (Ledger_text l) \<Rightarrow> l
      | _ \<Rightarrow> [])"

section \<open>Notions the properties are stated with\<close>

text \<open>The transactions submitted to the chain so far.\<close>

definition submissions :: "state \<Rightarrow> call list" where
  "submissions s = filter chain_submitting (st_calls s)"

text \<open>
  The ledger invariant: a key \<open>name_Implementation\<close> is present only if \<open>name\<close> is.
  \<open>strip_implementation\<close> removes the suffix from a key that ends with it.
\<close>

definition strip_implementation :: "string \<Rightarrow> string option" where
  "strip_implementation k =
     (let m = length k - length implementation_suffix
      in if drop m k = implementation_suffix then Some (take m k) else None)"

definition companion_invariant :: "ledger \<Rightarrow> bool" where
  "companion_invariant l =
     list_all (\<lambda>k. case strip_implementation k of
                      None \<Rightarrow> True
                    | Some name \<Rightarrow> map_of l name \<noteq> None) (map fst l)"

text \<open>
  The ledger file can be written once \<^verbatim>\<open>createOrGetDeployLog\<close> has looked after the
  log directory.
\<close>

definition ledger_writable :: "world \<Rightarrow> state \<Rightarrow> bool" where
  "ledger_writable w s =
     (write_error (deployLogPath_of (zkLinkRoot w) (network_name w))
        (st_fs (snd (createOrGetDeployLog (zkLinkRoot w) (network_name w) s))) = None)"

text \<open>
  A contract name that is not the name of a member of \<^verbatim>\<open>Object.prototype\<close>: reading
  and assigning the ledger under such a name touches own properties only.
\<close>

definition ordinary_name :: "string \<Rightarrow> bool" where
  "ordinary_name name = (name \<notin> set object_prototype_members)"

subsection \<open>A concrete network\<close>

text \<open>
  A network on which every collaborator answers: the contracts \<open>Token\<close>,
  \<open>Token_Implementation\<close>, \<open>toString\<close> and \<open>__proto__\<close> are compiled, any other name
  is reported missing the way hardhat does, the wallet holds 1000 and a deployment
  costs 100.
\<close>

definition testnet_world :: world where
  "testnet_world =
     \<lparr>zkLinkRoot = ''/repo/deploy'',
      network_name = ''testnet'',
      network_url = Some ''http://localhost:3050'',
      network_verifyURL = Some ''http://localhost:3070/verify'',
      env_WALLET_PRIVATE_KEY = Some ''0x7726'',
      newWallet = (\<lambda>k. Inr \<lparr>wallet_address = ''0x3661'', wallet_privateKey = k\<rparr>),
      loadArtifact = (\<lambda>n.
        if n \<in> set [''Token'', ''Token_Implementation'', ''toString'', ''__proto__'']
        then Inr \<lparr>contractName = n, sourceName = ''contracts/Token.sol'',
                  bytecode = ''0x6080'', abi = ''[]''\<rparr>
        else if n = ''Unreadable''
        then Inl (Js_error (Some ''EACCES: permission denied'') 13)
        else Inl (Js_error (Some (''HH700: '' @ artifact_needle n)) 700)),
      estimateDeployFee = (\<lambda>a args. Inr 100),
      getBalance = (\<lambda>wl. Inr 1000),
      deploy = (\<lambda>a args. Inr \<lparr>target = ''0xD1'', interface = abi a\<rparr>),
      deployProxy = (\<lambda>a iargs k allow args. Inr \<lparr>target = ''0xP1'', interface = abi a\<rparr>),
      upgradeProxy = (\<lambda>p a allow args. Inr ()),
      getImplementationAddress = (\<lambda>p. Inr ''0xI2''),
      getContractAt = (\<lambda>abi p.
        Inr \<lparr>target = (case p of Address a \<Rightarrow> a | _ \<Rightarrow> ''0x0000''), interface = abi\<rparr>),
      encodeDeploy = (\<lambda>c args. Inr ''0x''),
      run_verify = (\<lambda>r. Inr 1)\<rparr>"

text \<open>The same network with a wallet that holds 10.\<close>

definition poor_world :: world where
  "poor_world = testnet_world\<lparr>getBalance := (\<lambda>wl. Inr 10)\<rparr>"

text \<open>The same network with an explorer that rejects every verification request.\<close>

definition explorer_down_world :: world where
  "explorer_down_world =
     testnet_world\<lparr>run_verify := (\<lambda>r. Inl (Js_error (Some ''verification request failed'') 1))\<rparr>"

definition upgradable_options :: options where
  "upgradable_options =
     \<lparr>silent = None, noVerify = None, wallet_opt = None, upgradable = Some True,
      kind = Some Uups, unsafeAllow = None\<rparr>"

text \<open>A machine with no ledger yet, and one whose ledger holds an upgradable \<open>Token\<close>.\<close>

definition fresh_state :: state where
  "fresh_state = \<lparr>st_fs = \<lparr>fs_dirs = [], fs_files = []\<rparr>, st_calls = []\<rparr>"

definition token_state :: state where
  "token_state =
     \<lparr>st_fs = \<lparr>fs_dirs = [''/repo/deploy/log''],
               fs_files = [(''/repo/deploy/log/testnet.log'',
                            Ledger_text [(''Token'', ''0xP1''), (''Token_Implementation'', ''0xI1''),
                                         (''Other'', ''0xAA'')])]\<rparr>,
      st_calls = []\<rparr>"

definition token_artifact :: artifact where
  "token_artifact =
     \<lparr>contractName = ''Token'', sourceName = ''contracts/Token.sol'',
      bytecode = ''0x6080'', abi = ''[]''\<rparr>"

definition testnet_wallet :: wallet where
  "testnet_wallet = \<lparr>wallet_address = ''0x3661'', wallet_privateKey = ''0x7726''\<rparr>"

definition toString_artifact :: artifact where
  "toString_artifact =
     \<lparr>contractName = ''toString'', sourceName = ''contracts/Token.sol'',
      bytecode = ''0x6080'', abi = ''[]''\<rparr>"

section \<open>Supporting lemmas\<close>

subsection \<open>Loading the ledger\<close>

lemmas io_defs = bind_io_def return_io_def throw_io_def lift_io_def external_def modify_fs_def

lemma path_dirname_shorter:
  assumes "p \<noteq> []"
  shows "length (path_dirname p) < length p"
proof -
  define n where "n = length (dropWhile (\<lambda>c. c \<noteq> CHR ''/'') (rev p))"
  have "n \<le> length (rev p)"
    unfolding n_def by (rule length_dropWhile_le)
  moreover have "0 < length p"
    using assms by simp
  ultimately have "n - 1 < length p"
    unfolding length_rev by arith
  then show ?thesis
    by (simp add: path_dirname_def n_def)
qed

lemma logPath_neq: "path_dirname (deployLogPath_of root net) \<noteq> deployLogPath_of root net"
proof -
  have "deployLogPath_of root net \<noteq> []" by (simp add: deployLogPath_of_def)
  from path_dirname_shorter [OF this] show ?thesis by auto
qed

lemma createOrGetDeployLog_files:
  "fs_files (st_fs (snd (createOrGetDeployLog root net s))) = fs_files (st_fs s)"
  by (simp add: createOrGetDeployLog_def io_defs Let_def mkdirSync_def split: sum.splits prod.splits)

lemma createOrGetDeployLog_calls:
  "st_calls (snd (createOrGetDeployLog root net s)) = st_calls s"
  by (simp add: createOrGetDeployLog_def io_defs Let_def mkdirSync_def split: sum.splits prod.splits)

lemma createOrGetDeployLog_result:
  "fst (createOrGetDeployLog root net s) =
     (if \<not> existsSync (deployLogPath_of root net) (st_fs s) then Inr (deployLogPath_of root net, [])
      else case map_of (fs_files (st_fs s)) (deployLogPath_of root net) of
             None \<Rightarrow> Inl (ReadIsDirectory (deployLogPath_of root net))
           | Some Malformed_text \<Rightarrow> Inl JsonSyntaxError
           | Some (Ledger_text l) \<Rightarrow> Inr (deployLogPath_of root net, l))"
  using logPath_neq [of root net]
  by (auto simp: createOrGetDeployLog_def io_defs Let_def mkdirSync_def existsSync_def
        readFileSync_def JSON_parse_def split: sum.splits prod.splits option.splits file_text.splits)

lemma load_split:
  assumes "fst (createOrGetDeployLog root net s) = r"
  shows "\<exists>s0. createOrGetDeployLog root net s = (r, s0)
           \<and> fs_files (st_fs s0) = fs_files (st_fs s) \<and> st_calls s0 = st_calls s"
  using assms createOrGetDeployLog_files [of root net s] createOrGetDeployLog_calls [of root net s]
  by (cases "createOrGetDeployLog root net s") auto

lemma load_ok:
  assumes "fst (createOrGetDeployLog (zkLinkRoot w) (network_name w) s) = Inr (p, l)"
  shows "p = deployLogPath_of (zkLinkRoot w) (network_name w)" and "l = ledger_of w (st_fs s)"
  using assms
  by (auto simp: createOrGetDeployLog_result ledger_of_def existsSync_def
        split: if_splits option.splits file_text.splits)

lemma ledger_of_write:
  "ledger_of w (written (deployLogPath_of (zkLinkRoot w) (network_name w))
                  (JSON_stringify l) fs) = l"
  by (simp add: ledger_of_def written_def JSON_stringify_def update_conv')

lemma ledger_of_cong: "fs_files fs = fs_files fs' \<Longrightarrow> ledger_of w fs = ledger_of w fs'"
  by (simp add: ledger_of_def)

lemma load_cases:
  obtains (fail) e s0 where "createOrGetDeployLog (zkLinkRoot w) (network_name w) s = (Inl e, s0)"
      "fs_files (st_fs s0) = fs_files (st_fs s)" "st_calls s0 = st_calls s"
  | (ok) s0 where "createOrGetDeployLog (zkLinkRoot w) (network_name w) s =
        (Inr (deployLogPath_of (zkLinkRoot w) (network_name w), ledger_of w (st_fs s)), s0)"
      "fs_files (st_fs s0) = fs_files (st_fs s)" "st_calls s0 = st_calls s"
proof (cases "fst (createOrGetDeployLog (zkLinkRoot w) (network_name w) s)")
  case (Inl e)
  from load_split [OF this] fail show ?thesis by blast
next
  case (Inr pl)
  obtain p l where pl: "pl = (p, l)" by (cases pl)
  from load_ok [OF Inr [unfolded pl]] load_split [OF Inr [unfolded pl]] ok
  show ?thesis by blast
qed

subsection \<open>Reading and assigning the ledger object\<close>

lemma implementation_key_neq [simp]:
  "implementation_key name \<noteq> name" "name \<noteq> implementation_key name"
  by (simp_all add: implementation_key_def implementation_suffix_def)

lemma implementation_key_not_proto [simp]: "implementation_key name \<noteq> ''__proto__''"
proof
  assume "implementation_key name = ''__proto__''"
  then have "length (implementation_key name) = length ''__proto__''" by simp
  then show False
    by (simp add: implementation_key_def implementation_suffix_def)
qed

lemma js_set_implementation [simp]:
  "js_set (implementation_key name) a l = AList.update (implementation_key name) a l"
  by (simp add: js_set_def)

lemma js_set_plain: "name \<noteq> ''__proto__'' \<Longrightarrow> js_set name a l = AList.update name a l"
  by (simp add: js_set_def)

lemma map_of_js_set_other: "k \<noteq> key \<Longrightarrow> map_of (js_set key a l) k = map_of l k"
  by (simp add: js_set_def update_conv')

lemma js_get_update_other [simp]:
  "k \<noteq> key \<Longrightarrow> js_get (AList.update key a l) k = js_get l k"
  by (simp add: js_get_def update_conv')

lemma ordinary_name_not_proto: "ordinary_name name \<Longrightarrow> name \<noteq> ''__proto__''"
  by (auto simp: ordinary_name_def object_prototype_members_def)

lemma js_truthy_own:
  assumes "js_truthy (js_get l name)" and "ordinary_name name \<or> map_of l name \<noteq> None"
  shows "\<exists>proxy. map_of l name = Some proxy \<and> proxy \<noteq> [] \<and> js_get l name = Address proxy"
  using assms by (auto simp: js_get_def ordinary_name_def split: option.splits)

lemma js_get_absent:
  "ordinary_name name \<Longrightarrow> map_of l name = None \<Longrightarrow> \<not> js_truthy (js_get l name)"
  by (simp add: js_get_def ordinary_name_def)

subsection \<open>Runs of deployContract\<close>

lemmas run_defs = io_defs loadArtifact_catch_def verifyEnoughBalance_def
    verifyContract_def Let_def try_fs_def writeFileSync_def

lemma deployContract_steps:
  assumes ok: "fst (deployContract w n args opts iargs s) = Inr c"
  shows "\<exists>wl a fee bal rendered cargs.
           wallet_or_default w opts = Inr wl \<and> loadArtifact w n = Inr a \<and>
           estimateDeployFee w a (or_empty args) = Inr fee \<and>
           getBalance w wl = Inr bal \<and> \<not> bal < fee \<and>
           JSON_stringify_arguments args = Inr rendered \<and>
           (if truthy_bool (optional upgradable opts)
            then deployProxy w a iargs (optional kind opts) (optional unsafeAllow opts) args = Inr c
                 \<and> (\<exists>provider. getProvider w = Inr provider)
                 \<and> (\<exists>impl. getImplementationAddress w (Address (target c)) = Inr impl)
            else deploy w a args = Inr c) \<and>
           encodeDeploy w c args = Inr cargs \<and>
           ledger_writable w s \<and>
           (if \<not> truthy_bool (optional noVerify opts) \<and> truthy_string (network_verifyURL w)
            then \<exists>i. run_verify w
                   \<lparr>vr_address = target c, vr_contract = sourceName a @ '':'' @ contractName a,
                    vr_constructorArguments = cargs, vr_bytecode = bytecode a\<rparr> = Inr i
            else True)"
proof (cases rule: load_cases [of w s])
  case (fail e s0)
  with ok show ?thesis by (simp add: deployContract_def io_defs)
next
  case (ok s0)
  show ?thesis
  proof (cases "truthy_bool (optional upgradable opts)")
    case True
    show ?thesis
      using assms ok(1) True
      by (auto simp add: deployContract_def run_defs ledger_writable_def
            split: sum.splits if_splits option.splits)
  next
    case False
    show ?thesis
      using assms ok(1) False
      by (auto simp add: deployContract_def run_defs ledger_writable_def
            split: sum.splits if_splits option.splits)
  qed
qed

lemma deployContract_ledger:
  assumes ok: "fst (deployContract w n args opts iargs s) = Inr c"
    and art: "loadArtifact w n = Inr a"
  shows "ledger_of w (st_fs (snd (deployContract w n args opts iargs s))) =
           (if truthy_bool (optional upgradable opts)
            then case getImplementationAddress w (Address (target c)) of
                   Inr impl \<Rightarrow> AList.update (implementation_key (contractName a)) impl
                                 (js_set (contractName a) (target c) (ledger_of w (st_fs s)))
                 | Inl e \<Rightarrow> ledger_of w (st_fs s)
            else js_set (contractName a) (target c) (ledger_of w (st_fs s)))"
proof (cases rule: load_cases [of w s])
  case (fail e s0)
  with ok show ?thesis by (simp add: deployContract_def io_defs)
next
  case (ok s0)
  from deployContract_steps [OF assms(1)] art obtain wl fee bal rendered cargs where
    steps: "wallet_or_default w opts = Inr wl"
      "estimateDeployFee w a (or_empty args) = Inr fee"
      "getBalance w wl = Inr bal" "\<not> bal < fee"
      "JSON_stringify_arguments args = Inr rendered"
      "if truthy_bool (optional upgradable opts)
            then deployProxy w a iargs (optional kind opts) (optional unsafeAllow opts) args = Inr c
                 \<and> (\<exists>provider. getProvider w = Inr provider)
                 \<and> (\<exists>impl. getImplementationAddress w (Address (target c)) = Inr impl)
            else deploy w a args = Inr c"
      "encodeDeploy w c args = Inr cargs"
      "ledger_writable w s"
      "if \<not> truthy_bool (optional noVerify opts) \<and> truthy_string (network_verifyURL w)
            then \<exists>i. run_verify w
                   \<lparr>vr_address = target c, vr_contract = sourceName a @ '':'' @ contractName a,
                    vr_constructorArguments = cargs, vr_bytecode = bytecode a\<rparr> = Inr i
            else True"
    by auto
  have verify: "\<not> truthy_bool (optional noVerify opts) \<and> truthy_string (network_verifyURL w)
     \<Longrightarrow> \<exists>i. run_verify w
                   \<lparr>vr_address = target c, vr_contract = sourceName a @ '':'' @ contractName a,
                    vr_constructorArguments = cargs, vr_bytecode = bytecode a\<rparr> = Inr i"
    using steps(9) by simp
  have writable: "write_error (deployLogPath_of (zkLinkRoot w) (network_name w)) (st_fs s0) = None"
    using steps(8) ok(1) by (simp add: ledger_writable_def)
  show ?thesis
  proof (cases "truthy_bool (optional upgradable opts)")
    case True
    with steps(6) obtain provider impl where
      "deployProxy w a iargs (optional kind opts) (optional unsafeAllow opts) args = Inr c"
      "getProvider w = Inr provider" "getImplementationAddress w (Address (target c)) = Inr impl"
      by auto
    with True steps(1-5,7) art ok(1) verify writable show ?thesis
      by (auto simp add: deployContract_def run_defs ledger_of_write)
  next
    case False
    with steps have "deploy w a args = Inr c" by simp
    with False steps(1-5,7) art ok(1) verify writable show ?thesis
      by (auto simp add: deployContract_def run_defs ledger_of_write)
  qed
qed

lemma deployContract_outcome:
  "fs_files (st_fs (snd (deployContract w n args opts iargs s))) = fs_files (st_fs s) \<or>
   (\<exists>a addr. loadArtifact w n = Inr a \<and>
      (ledger_of w (st_fs (snd (deployContract w n args opts iargs s))) =
         js_set (contractName a) addr (ledger_of w (st_fs s)) \<or>
       (\<exists>impl. ledger_of w (st_fs (snd (deployContract w n args opts iargs s))) =
         AList.update (implementation_key (contractName a)) impl
           (js_set (contractName a) addr (ledger_of w (st_fs s))))))"
proof (cases rule: load_cases [of w s])
  case (fail e s0)
  then show ?thesis by (simp add: deployContract_def io_defs)
next
  case (ok s0)
  show ?thesis
  proof (cases "truthy_bool (optional upgradable opts)")
    case upg: True
    show ?thesis
    proof (cases "\<not> truthy_bool (optional noVerify opts) \<and> truthy_string (network_verifyURL w)")
      case True
      with ok upg show ?thesis
        by (simp add: deployContract_def run_defs ledger_of_write
              split: sum.split option.split) blast?
    next
      case False
      with ok upg show ?thesis
        by (simp add: deployContract_def run_defs ledger_of_write
              split: sum.split option.split) blast?
    qed
  next
    case upg: False
    show ?thesis
    proof (cases "\<not> truthy_bool (optional noVerify opts) \<and> truthy_string (network_verifyURL w)")
      case True
      with ok upg show ?thesis
        by (simp add: deployContract_def run_defs ledger_of_write
              split: sum.split option.split) blast?
    next
      case False
      with ok upg show ?thesis
        by (simp add: deployContract_def run_defs ledger_of_write
              split: sum.split option.split) blast?
    qed
  qed
qed

subsection \<open>Runs of upgradeContract\<close>

lemma upgradeContract_steps:
  assumes ok: "fst (upgradeContract w n args opts s) = Inr c"
  shows "\<exists>wl a fee bal rendered provider impl cargs.
           wallet_or_default w opts = Inr wl \<and> loadArtifact w n = Inr a \<and>
           estimateDeployFee w a (or_empty args) = Inr fee \<and>
           getBalance w wl = Inr bal \<and> \<not> bal < fee \<and>
           JSON_stringify_arguments args = Inr rendered \<and>
           truthy_bool (optional upgradable opts) \<and>
           js_truthy (js_get (ledger_of w (st_fs s)) (contractName a)) \<and>
           upgradeProxy w (js_get (ledger_of w (st_fs s)) (contractName a)) a
             (optional unsafeAllow opts) args = Inr () \<and>
           getProvider w = Inr provider \<and>
           getImplementationAddress w (js_get (ledger_of w (st_fs s)) (contractName a)) =
             Inr impl \<and>
           ledger_writable w s \<and>
           getContractAt w (abi a) (js_get (ledger_of w (st_fs s)) (contractName a)) = Inr c \<and>
           encodeDeploy w c args = Inr cargs"
proof (cases rule: load_cases [of w s])
  case (fail e s0)
  with ok show ?thesis by (simp add: upgradeContract_def io_defs)
next
  case (ok s0)
  show ?thesis
  proof (cases "truthy_bool (optional upgradable opts)")
    case True
    show ?thesis
      using assms ok(1) True
      by (auto simp add: upgradeContract_def run_defs ledger_writable_def
            split: sum.splits if_splits option.splits)
  next
    case False
    show ?thesis
      using assms ok(1) False
      by (auto simp add: upgradeContract_def run_defs split: sum.splits if_splits)
  qed
qed

lemma upgradeContract_ledger:
  assumes ok: "fst (upgradeContract w n args opts s) = Inr c"
    and art: "loadArtifact w n = Inr a"
  shows "\<exists>impl. getImplementationAddress w (js_get (ledger_of w (st_fs s)) (contractName a)) =
                   Inr impl \<and>
           ledger_of w (st_fs (snd (upgradeContract w n args opts s))) =
             AList.update (implementation_key (contractName a)) impl (ledger_of w (st_fs s))"
proof -
  from upgradeContract_steps [OF ok] art obtain wl fee bal rendered provider impl cargs where
    steps: "wallet_or_default w opts = Inr wl"
      "estimateDeployFee w a (or_empty args) = Inr fee"
      "getBalance w wl = Inr bal" "\<not> bal < fee"
      "JSON_stringify_arguments args = Inr rendered"
      "truthy_bool (optional upgradable opts)"
      "js_truthy (js_get (ledger_of w (st_fs s)) (contractName a))"
      "upgradeProxy w (js_get (ledger_of w (st_fs s)) (contractName a)) a
         (optional unsafeAllow opts) args = Inr ()"
      "getProvider w = Inr provider"
      "getImplementationAddress w (js_get (ledger_of w (st_fs s)) (contractName a)) = Inr impl"
      "ledger_writable w s"
      "getContractAt w (abi a) (js_get (ledger_of w (st_fs s)) (contractName a)) = Inr c"
      "encodeDeploy w c args = Inr cargs"
    by auto
  show ?thesis
  proof (cases rule: load_cases [of w s])
    case (fail e s0)
    with ok show ?thesis by (simp add: upgradeContract_def io_defs)
  next
    case (ok s0)
    have "write_error (deployLogPath_of (zkLinkRoot w) (network_name w)) (st_fs s0) = None"
      using steps(11) ok(1) by (simp add: ledger_writable_def)
    with ok steps art show ?thesis
      by (simp add: upgradeContract_def run_defs ledger_of_write split: sum.split)
  qed
qed

lemma upgradeContract_outcome:
  "fs_files (st_fs (snd (upgradeContract w n args opts s))) = fs_files (st_fs s) \<or>
   (\<exists>a impl. loadArtifact w n = Inr a \<and>
      js_truthy (js_get (ledger_of w (st_fs s)) (contractName a)) \<and>
      ledger_of w (st_fs (snd (upgradeContract w n args opts s))) =
        AList.update (implementation_key (contractName a)) impl (ledger_of w (st_fs s)))"
proof (cases rule: load_cases [of w s])
  case (fail e s0)
  then show ?thesis by (simp add: upgradeContract_def io_defs)
next
  case (ok s0)
  show ?thesis
  proof (cases "truthy_bool (optional upgradable opts)")
    case upg: True
    show ?thesis
    proof (cases "\<not> truthy_bool (optional noVerify opts) \<and> truthy_string (network_verifyURL w)")
      case True
      with ok upg show ?thesis
        by (simp add: upgradeContract_def run_defs ledger_of_write
              split: sum.split option.split) blast?
    next
      case False
      with ok upg show ?thesis
        by (simp add: upgradeContract_def run_defs ledger_of_write
              split: sum.split option.split) blast?
    qed
  next
    case upg: False
    with ok show ?thesis
      by (simp add: upgradeContract_def run_defs split: sum.split)
  qed
qed

lemma upgradeContract_blocked:
  assumes "truthy_bool (optional upgradable opts) \<longrightarrow>
     (\<forall>a. loadArtifact w n = Inr a \<longrightarrow>
        \<not> js_truthy (js_get (ledger_of w (st_fs s)) (contractName a)))"
  shows "(\<exists>e. fst (upgradeContract w n args opts s) = Inl e) \<and>
         fs_files (st_fs (snd (upgradeContract w n args opts s))) = fs_files (st_fs s) \<and>
         submissions (snd (upgradeContract w n args opts s)) = submissions s"
proof (cases rule: load_cases [of w s])
  case (fail e s0)
  then show ?thesis by (simp add: upgradeContract_def io_defs submissions_def)
next
  case (ok s0)
  show ?thesis
  proof (cases "truthy_bool (optional upgradable opts)")
    case True
    show ?thesis
    proof (cases "loadArtifact w n")
      case (Inl e)
      with ok show ?thesis
        by (simp add: upgradeContract_def run_defs submissions_def split: sum.split)
    next
      case (Inr a)
      with assms True have "\<not> js_truthy (js_get (ledger_of w (st_fs s)) (contractName a))"
        by simp
      with ok Inr True show ?thesis
        by (simp add: upgradeContract_def run_defs submissions_def split: sum.split)
    qed
  next
    case False
    with ok show ?thesis
      by (simp add: upgradeContract_def run_defs submissions_def split: sum.split)
  qed
qed

subsection \<open>The ledger invariant\<close>

lemma strip_implementation_iff:
  "strip_implementation k = Some name \<longleftrightarrow> k = implementation_key name"
proof
  define m where "m = length k - length implementation_suffix"
  assume "strip_implementation k = Some name"
  then have d: "drop m k = implementation_suffix" and t: "name = take m k"
    by (auto simp: strip_implementation_def Let_def m_def split: if_splits)
  have "k = take m k @ drop m k" by simp
  with d t show "k = implementation_key name"
    by (simp only: implementation_key_def)
next
  assume "k = implementation_key name"
  then show "strip_implementation k = Some name"
    by (simp add: strip_implementation_def implementation_key_def)
qed

lemma companion_invariant_iff:
  "companion_invariant l \<longleftrightarrow>
     (\<forall>name. map_of l (implementation_key name) \<noteq> None \<longrightarrow> map_of l name \<noteq> None)"
proof
  assume inv: "companion_invariant l"
  show "\<forall>name. map_of l (implementation_key name) \<noteq> None \<longrightarrow> map_of l name \<noteq> None"
  proof (intro allI impI)
    fix name
    assume "map_of l (implementation_key name) \<noteq> None"
    then have "implementation_key name \<in> set (map fst l)"
      by (simp add: map_of_eq_None_iff)
    with inv have "case strip_implementation (implementation_key name) of
                     None \<Rightarrow> True | Some m \<Rightarrow> map_of l m \<noteq> None"
      unfolding companion_invariant_def list_all_iff by blast
    moreover have "strip_implementation (implementation_key name) = Some name"
      by (simp add: strip_implementation_iff)
    ultimately show "map_of l name \<noteq> None" by simp
  qed
next
  assume q: "\<forall>name. map_of l (implementation_key name) \<noteq> None \<longrightarrow> map_of l name \<noteq> None"
  show "companion_invariant l"
    unfolding companion_invariant_def list_all_iff
  proof
    fix k
    assume k: "k \<in> set (map fst l)"
    show "case strip_implementation k of None \<Rightarrow> True | Some name \<Rightarrow> map_of l name \<noteq> None"
    proof (cases "strip_implementation k")
      case None
      then show ?thesis by simp
    next
      case (Some name)
      then have "k = implementation_key name" by (simp add: strip_implementation_iff)
      with k have "map_of l (implementation_key name) \<noteq> None"
        by (simp add: map_of_eq_None_iff)
      with q Some show ?thesis by simp
    qed
  qed
qed

lemma implementation_key_inject [simp]:
  "implementation_key a = implementation_key b \<longleftrightarrow> a = b"
  by (simp add: implementation_key_def)

lemma companion_invariant_upgrade:
  assumes "companion_invariant l" and "map_of l name = Some proxy"
  shows "companion_invariant (AList.update (implementation_key name) impl l)"
  using assms unfolding companion_invariant_iff by (auto simp: update_conv')

lemma companion_invariant_deploy:
  assumes "companion_invariant l" and "strip_implementation name = None"
    and "name \<noteq> ''__proto__''"
  shows "companion_invariant (js_set name addr l)"
    and "companion_invariant (AList.update (implementation_key name) impl (js_set name addr l))"
proof -
  have neq: "name \<noteq> implementation_key m" for m
    using assms(2) strip_implementation_iff [of name m] by auto
  show "companion_invariant (js_set name addr l)"
    using assms(1,3) neq unfolding companion_invariant_iff
    by (auto simp: js_set_plain update_conv')
  show "companion_invariant (AList.update (implementation_key name) impl (js_set name addr l))"
    using assms(1,3) neq unfolding companion_invariant_iff
    by (auto simp: js_set_plain update_conv')
qed

subsection \<open>Evaluation on the concrete network\<close>

lemmas eval_defs = testnet_world_def poor_world_def explorer_down_world_def
  upgradable_options_def fresh_state_def token_state_def token_artifact_def testnet_wallet_def
  toString_artifact_def
  deployContract_def upgradeContract_def createOrGetDeployLog_def run_defs
  deployLogPath_of_def path_dirname_def existsSync_def mkdirSync_def readFileSync_def
  write_error_def written_def JSON_parse_def JSON_stringify_def JSON_stringify_arguments_def
  wallet_or_default_def getWallet_def
  getProvider_def optional_def truthy_string_def truthy_bool_def or_empty_def
  implementation_key_def implementation_suffix_def ledger_of_def artifact_needle_def
  compile_hint_def reports_missing_artifact_def submissions_def
  js_get_def js_set_def object_prototype_members_def ledger_writable_def

section \<open>Loading the ledger\<close>

text \<open>
  C8.  For every network name, \<^verbatim>\<open>createOrGetDeployLog\<close> returns the empty mapping
  when nothing exists at the network's ledger path, and the mapping stored in the file
  when the file holds one; in particular it returns what the last write of the ledger
  stored, whenever that write succeeded.  Loading changes no file.
\<close>

theorem createOrGetDeployLog_load:
  "(\<not> existsSync (deployLogPath_of root net) (st_fs s) \<longrightarrow>
      fst (createOrGetDeployLog root net s) = Inr (deployLogPath_of root net, [])) \<and>
   (\<forall>l. map_of (fs_files (st_fs s)) (deployLogPath_of root net) = Some (Ledger_text l) \<longrightarrow>
      fst (createOrGetDeployLog root net s) = Inr (deployLogPath_of root net, l)) \<and>
   (\<forall>l. fst (createOrGetDeployLog root net
              (s\<lparr>st_fs := written (deployLogPath_of root net) (JSON_stringify l)
                              (st_fs s)\<rparr>)) = Inr (deployLogPath_of root net, l)) \<and>
   (\<forall>l fs. writeFileSync (deployLogPath_of root net) (JSON_stringify l) (st_fs s) = Inr fs \<longrightarrow>
      fst (createOrGetDeployLog root net (s\<lparr>st_fs := fs\<rparr>)) =
        Inr (deployLogPath_of root net, l)) \<and>
   fs_files (st_fs (snd (createOrGetDeployLog root net s))) = fs_files (st_fs s)"
proof -
  have after_write: "fst (createOrGetDeployLog root net
          (s\<lparr>st_fs := written (deployLogPath_of root net) (JSON_stringify l) (st_fs s)\<rparr>)) =
        Inr (deployLogPath_of root net, l)" for l
  proof -
    let ?s = "s\<lparr>st_fs := written (deployLogPath_of root net) (JSON_stringify l) (st_fs s)\<rparr>"
    have stored: "map_of (fs_files (st_fs ?s)) (deployLogPath_of root net) = Some (Ledger_text l)"
      by (simp add: written_def JSON_stringify_def update_conv')
    then have "existsSync (deployLogPath_of root net) (st_fs ?s)"
      by (simp add: existsSync_def)
    with stored show ?thesis
      by (simp only: createOrGetDeployLog_result) simp
  qed
  show ?thesis
  proof (intro conjI allI impI)
  assume "\<not> existsSync (deployLogPath_of root net) (st_fs s)"
  then show "fst (createOrGetDeployLog root net s) = Inr (deployLogPath_of root net, [])"
    by (simp add: createOrGetDeployLog_result)
next
  fix l
  assume stored: "map_of (fs_files (st_fs s)) (deployLogPath_of root net) = Some (Ledger_text l)"
  then have "existsSync (deployLogPath_of root net) (st_fs s)"
    by (simp add: existsSync_def)
  with stored show "fst (createOrGetDeployLog root net s) = Inr (deployLogPath_of root net, l)"
    by (simp add: createOrGetDeployLog_result)
next
  fix l
  show "fst (createOrGetDeployLog root net
          (s\<lparr>st_fs := written (deployLogPath_of root net) (JSON_stringify l) (st_fs s)\<rparr>)) =
        Inr (deployLogPath_of root net, l)"
    by (rule after_write)
next
  fix l fs
  assume "writeFileSync (deployLogPath_of root net) (JSON_stringify l) (st_fs s) = Inr fs"
  then have "fs = written (deployLogPath_of root net) (JSON_stringify l) (st_fs s)"
    by (auto simp: writeFileSync_def split: option.splits)
  with after_write [of l]
  show "fst (createOrGetDeployLog root net (s\<lparr>st_fs := fs\<rparr>)) =
      Inr (deployLogPath_of root net, l)"
    by simp
next
  show "fs_files (st_fs (snd (createOrGetDeployLog root net s))) = fs_files (st_fs s)"
    by (rule createOrGetDeployLog_files)
qed
qed

theorem createOrGetDeployLog_load_witness:
  "\<not> existsSync (deployLogPath_of ''/repo/deploy'' ''testnet'') (st_fs fresh_state) \<and>
   fst (createOrGetDeployLog ''/repo/deploy'' ''testnet'' fresh_state) =
     Inr (''/repo/deploy/log/testnet.log'', []) \<and>
   fst (createOrGetDeployLog ''/repo/deploy'' ''testnet'' token_state) =
     Inr (''/repo/deploy/log/testnet.log'',
          [(''Token'', ''0xP1''), (''Token_Implementation'', ''0xI1''), (''Other'', ''0xAA'')])"
proof -
  have absent: "\<not> existsSync (deployLogPath_of ''/repo/deploy'' ''testnet'') (st_fs fresh_state)"
    by (simp add: eval_defs)
  have stored: "map_of (fs_files (st_fs token_state)) (deployLogPath_of ''/repo/deploy'' ''testnet'')
      = Some (Ledger_text [(''Token'', ''0xP1''), (''Token_Implementation'', ''0xI1''),
                           (''Other'', ''0xAA'')])"
    by (simp add: eval_defs)
  have path: "deployLogPath_of ''/repo/deploy'' ''testnet'' = ''/repo/deploy/log/testnet.log''"
    by (simp add: deployLogPath_of_def)
  from createOrGetDeployLog_load [of "''/repo/deploy''" "''testnet''" fresh_state] absent
  have first: "fst (createOrGetDeployLog ''/repo/deploy'' ''testnet'' fresh_state) =
      Inr (deployLogPath_of ''/repo/deploy'' ''testnet'', [])"
    by blast
  from createOrGetDeployLog_load [of "''/repo/deploy''" "''testnet''" token_state] stored
  have later: "fst (createOrGetDeployLog ''/repo/deploy'' ''testnet'' token_state) =
      Inr (deployLogPath_of ''/repo/deploy'' ''testnet'',
           [(''Token'', ''0xP1''), (''Token_Implementation'', ''0xI1''), (''Other'', ''0xAA'')])"
    by blast
  from absent first later show ?thesis
    unfolding path by simp
qed

section \<open>The balance guard\<close>

text \<open>
  C1.  Whenever the ledger has been loaded, the wallet obtained, the artifact resolved
  and the fee estimated, and the wallet's balance is below the fee, both
  \<^verbatim>\<open>deployContract\<close> and \<^verbatim>\<open>upgradeContract\<close> fail with the insufficient-balance
  error, which carries the required amount and the balance; no transaction is
  submitted and no file is written.
\<close>

theorem balance_guard_absolute:
  assumes load: "fst (createOrGetDeployLog (zkLinkRoot w) (network_name w) s) = Inr (p, l)"
    and wal: "wallet_or_default w opts = Inr wl"
    and art: "loadArtifact w n = Inr a"
    and fee: "estimateDeployFee w a (or_empty args) = Inr fee"
    and bal: "getBalance w wl = Inr balance"
    and low: "balance < fee"
  shows "fst (deployContract w n args opts iargs s) =
           Inl (InsufficientBalance fee (wallet_address wl) balance) \<and>
         submissions (snd (deployContract w n args opts iargs s)) = submissions s \<and>
         fs_files (st_fs (snd (deployContract w n args opts iargs s))) = fs_files (st_fs s) \<and>
         fst (upgradeContract w n args opts s) =
           Inl (InsufficientBalance fee (wallet_address wl) balance) \<and>
         submissions (snd (upgradeContract w n args opts s)) = submissions s \<and>
         fs_files (st_fs (snd (upgradeContract w n args opts s))) = fs_files (st_fs s)"
proof -
  from load_split [OF load] obtain s0 where
    s0: "createOrGetDeployLog (zkLinkRoot w) (network_name w) s = (Inr (p, l), s0)"
    and f0: "fs_files (st_fs s0) = fs_files (st_fs s)" and c0: "st_calls s0 = st_calls s"
    by blast
  note facts = s0 wal art fee bal low
  have d1: "fst (deployContract w n args opts iargs s) =
      Inl (InsufficientBalance fee (wallet_address wl) balance)"
    using facts by (simp add: deployContract_def run_defs)
  have d2: "submissions (snd (deployContract w n args opts iargs s)) = submissions s"
    using facts c0 by (simp add: deployContract_def run_defs submissions_def)
  have d3: "fs_files (st_fs (snd (deployContract w n args opts iargs s))) = fs_files (st_fs s)"
    using facts f0 by (simp add: deployContract_def run_defs)
  have u1: "fst (upgradeContract w n args opts s) =
      Inl (InsufficientBalance fee (wallet_address wl) balance)"
    using facts by (simp add: upgradeContract_def run_defs)
  have u2: "submissions (snd (upgradeContract w n args opts s)) = submissions s"
    using facts c0 by (simp add: upgradeContract_def run_defs submissions_def)
  have u3: "fs_files (st_fs (snd (upgradeContract w n args opts s))) = fs_files (st_fs s)"
    using facts f0 by (simp add: upgradeContract_def run_defs)
  from d1 d2 d3 u1 u2 u3 show ?thesis by blast
qed

theorem balance_guard_absolute_witness:
  "getBalance poor_world testnet_wallet = Inr 10 \<and>
   estimateDeployFee poor_world token_artifact (or_empty None) = Inr 100 \<and> (10::int) < 100 \<and>
   fst (deployContract poor_world ''Token'' None None None token_state) =
     Inl (InsufficientBalance 100 ''0x3661'' 10) \<and>
   submissions (snd (deployContract poor_world ''Token'' None None None token_state)) = [] \<and>
   fs_files (st_fs (snd (deployContract poor_world ''Token'' None None None token_state))) =
     fs_files (st_fs token_state) \<and>
   fst (upgradeContract poor_world ''Token'' None (Some upgradable_options) token_state) =
     Inl (InsufficientBalance 100 ''0x3661'' 10) \<and>
   fs_files (st_fs (snd (upgradeContract poor_world ''Token'' None (Some upgradable_options)
     token_state))) = fs_files (st_fs token_state)"
proof -
  have load: "fst (createOrGetDeployLog (zkLinkRoot poor_world) (network_name poor_world)
                token_state) =
      Inr (''/repo/deploy/log/testnet.log'',
           [(''Token'', ''0xP1''), (''Token_Implementation'', ''0xI1''), (''Other'', ''0xAA'')])"
    by (simp add: eval_defs)
  have wal1: "wallet_or_default poor_world None = Inr testnet_wallet"
    and wal2: "wallet_or_default poor_world (Some upgradable_options) = Inr testnet_wallet"
    by (simp_all add: eval_defs)
  have art: "loadArtifact poor_world ''Token'' = Inr token_artifact"
    by (simp add: eval_defs)
  have fee: "estimateDeployFee poor_world token_artifact (or_empty None) = Inr 100"
    by (simp add: eval_defs)
  have bal: "getBalance poor_world testnet_wallet = Inr 10"
    by (simp add: eval_defs)
  have low: "(10::int) < 100" by simp
  have addr: "wallet_address testnet_wallet = ''0x3661''"
    by (simp add: testnet_wallet_def)
  have none: "submissions token_state = []"
    by (simp add: eval_defs)
  from balance_guard_absolute [OF load wal1 art fee bal low, of None]
    balance_guard_absolute [OF load wal2 art fee bal low, of None]
    fee bal low
  show ?thesis
    unfolding addr none by simp
qed

section \<open>Missing artifacts\<close>

text \<open>
  C7.  When the resolver fails and its error reports that the artifact of the named
  contract was not found, both functions throw their own readable string
  (\<open>ArtifactNotFound\<close>) in its place; any other resolver error is thrown on as it is.
  In both cases the resolver is the only collaborator that has been called, and no
  file is written.
\<close>

theorem artifact_not_found_distinct:
  assumes load: "fst (createOrGetDeployLog (zkLinkRoot w) (network_name w) s) = Inr (p, l)"
    and wal: "wallet_or_default w opts = Inr wl"
    and miss: "loadArtifact w n = Inl e"
  shows "fst (deployContract w n args opts iargs s) =
           (if reports_missing_artifact n e
            then Inl (ArtifactNotFound (no_entry @ '' '' @ compile_hint))
            else Inl (Foreign e)) \<and>
         st_calls (snd (deployContract w n args opts iargs s)) =
           st_calls s @ [Call_loadArtifact n] \<and>
         fs_files (st_fs (snd (deployContract w n args opts iargs s))) = fs_files (st_fs s) \<and>
         fst (upgradeContract w n args opts s) =
           (if reports_missing_artifact n e
            then Inl (ArtifactNotFound compile_hint)
            else Inl (Foreign e)) \<and>
         st_calls (snd (upgradeContract w n args opts s)) =
           st_calls s @ [Call_loadArtifact n] \<and>
         fs_files (st_fs (snd (upgradeContract w n args opts s))) = fs_files (st_fs s)"
proof -
  from load_split [OF load] obtain s0 where
    s0: "createOrGetDeployLog (zkLinkRoot w) (network_name w) s = (Inr (p, l), s0)"
    and f0: "fs_files (st_fs s0) = fs_files (st_fs s)" and c0: "st_calls s0 = st_calls s"
    by blast
  note facts = s0 wal miss f0 c0
  have d: "fst (deployContract w n args opts iargs s) =
           (if reports_missing_artifact n e
            then Inl (ArtifactNotFound (no_entry @ '' '' @ compile_hint))
            else Inl (Foreign e)) \<and>
         st_calls (snd (deployContract w n args opts iargs s)) =
           st_calls s @ [Call_loadArtifact n] \<and>
         fs_files (st_fs (snd (deployContract w n args opts iargs s))) = fs_files (st_fs s)"
    using facts by (simp add: deployContract_def run_defs)
  have u: "fst (upgradeContract w n args opts s) =
           (if reports_missing_artifact n e
            then Inl (ArtifactNotFound compile_hint)
            else Inl (Foreign e)) \<and>
         st_calls (snd (upgradeContract w n args opts s)) =
           st_calls s @ [Call_loadArtifact n] \<and>
         fs_files (st_fs (snd (upgradeContract w n args opts s))) = fs_files (st_fs s)"
    using facts by (simp add: upgradeContract_def run_defs)
  from d u show ?thesis by blast
qed

theorem artifact_not_found_distinct_witness:
  "reports_missing_artifact ''Missing''
     (Js_error (Some (''HH700: '' @ artifact_needle ''Missing'')) 700) \<and>
   \<not> reports_missing_artifact ''Unreadable'' (Js_error (Some ''EACCES: permission denied'') 13) \<and>
   fst (deployContract testnet_world ''Missing'' None None None fresh_state) =
     Inl (ArtifactNotFound (no_entry @ '' '' @ compile_hint)) \<and>
   fst (upgradeContract testnet_world ''Missing'' None None fresh_state) =
     Inl (ArtifactNotFound compile_hint) \<and>
   st_calls (snd (deployContract testnet_world ''Missing'' None None None fresh_state)) =
     [Call_loadArtifact ''Missing''] \<and>
   fst (deployContract testnet_world ''Unreadable'' None None None fresh_state) =
     Inl (Foreign (Js_error (Some ''EACCES: permission denied'') 13)) \<and>
   fst (upgradeContract testnet_world ''Unreadable'' None None fresh_state) =
     Inl (Foreign (Js_error (Some ''EACCES: permission denied'') 13))"
proof -
  have load: "fst (createOrGetDeployLog (zkLinkRoot testnet_world) (network_name testnet_world)
                fresh_state) = Inr (''/repo/deploy/log/testnet.log'', [])"
    by (simp add: eval_defs)
  have wal: "wallet_or_default testnet_world None = Inr testnet_wallet"
    by (simp add: eval_defs)
  have miss: "loadArtifact testnet_world ''Missing'' =
      Inl (Js_error (Some (''HH700: '' @ artifact_needle ''Missing'')) 700)"
    by (simp add: testnet_world_def)
  have other: "loadArtifact testnet_world ''Unreadable'' =
      Inl (Js_error (Some ''EACCES: permission denied'') 13)"
    by (simp add: testnet_world_def)
  have yes: "reports_missing_artifact ''Missing''
      (Js_error (Some (''HH700: '' @ artifact_needle ''Missing'')) 700)"
    by (simp add: reports_missing_artifact_def artifact_needle_def)
  have no: "\<not> reports_missing_artifact ''Unreadable''
      (Js_error (Some ''EACCES: permission denied'') 13)"
    by (simp add: reports_missing_artifact_def artifact_needle_def)
  have calls: "st_calls fresh_state = []"
    by (simp add: fresh_state_def)
  from artifact_not_found_distinct [OF load wal miss, of None None]
    artifact_not_found_distinct [OF load wal other, of None None]
    yes no
  show ?thesis
    unfolding calls by simp
qed

section \<open>Upgrades\<close>

subsection \<open>Names read as own entries\<close>

text \<open>
  What \<^verbatim>\<open>upgradeContract\<close> does for a contract whose name is not the name of a member of
  \<^verbatim>\<open>Object.prototype\<close>, or whose name has an entry of its own: the value read under
  the name is the entry, so an unknown name is turned away, and a successful run leaves
  the entry alone, binds the handle to it and records the implementation read back
  through it.
\<close>

lemma upgrade_unknown_ordinary_name:
  assumes upg: "truthy_bool (optional upgradable opts)"
    and art: "loadArtifact w n = Inr a"
    and ordinary: "ordinary_name (contractName a)"
    and absent: "map_of (ledger_of w (st_fs s)) (contractName a) = None"
  shows "(\<exists>e. fst (upgradeContract w n args opts s) = Inl e) \<and>
         fs_files (st_fs (snd (upgradeContract w n args opts s))) = fs_files (st_fs s) \<and>
         submissions (snd (upgradeContract w n args opts s)) = submissions s \<and>
         (\<forall>p l wl fee balance rendered.
            fst (createOrGetDeployLog (zkLinkRoot w) (network_name w) s) = Inr (p, l) \<and>
            wallet_or_default w opts = Inr wl \<and>
            estimateDeployFee w a (or_empty args) = Inr fee \<and>
            getBalance w wl = Inr balance \<and> \<not> balance < fee \<and>
            JSON_stringify_arguments args = Inr rendered \<longrightarrow>
            fst (upgradeContract w n args opts s) = Inl ProxyNotFound)"
proof -
  have falsy: "\<not> js_truthy (js_get (ledger_of w (st_fs s)) (contractName a))"
    using ordinary absent by (rule js_get_absent)
  then have "\<forall>a. loadArtifact w n = Inr a \<longrightarrow>
      \<not> js_truthy (js_get (ledger_of w (st_fs s)) (contractName a))"
    using art by simp
  then have general: "(\<exists>e. fst (upgradeContract w n args opts s) = Inl e) \<and>
         fs_files (st_fs (snd (upgradeContract w n args opts s))) = fs_files (st_fs s) \<and>
         submissions (snd (upgradeContract w n args opts s)) = submissions s"
    by (intro upgradeContract_blocked) simp
  have "fst (upgradeContract w n args opts s) = Inl ProxyNotFound"
    if load: "fst (createOrGetDeployLog (zkLinkRoot w) (network_name w) s) = Inr (p, l)"
      and pre: "wallet_or_default w opts = Inr wl" "estimateDeployFee w a (or_empty args) = Inr fee"
        "getBalance w wl = Inr balance" "\<not> balance < fee"
        "JSON_stringify_arguments args = Inr rendered"
    for p l wl fee balance rendered
  proof -
    from load_split [OF load] obtain s0 where
      s0: "createOrGetDeployLog (zkLinkRoot w) (network_name w) s = (Inr (p, l), s0)" by blast
    from load_ok [OF load] have "l = ledger_of w (st_fs s)" by simp
    with falsy have "\<not> js_truthy (js_get l (contractName a))" by simp
    with s0 pre art upg show ?thesis
      by (simp add: upgradeContract_def run_defs)
  qed
  with general show ?thesis by blast
qed

lemma upgrade_success_facts:
  assumes ok: "fst (upgradeContract w n args opts s) = Inr c"
    and art: "loadArtifact w n = Inr a"
  shows "map_of (ledger_of w (st_fs (snd (upgradeContract w n args opts s)))) (contractName a) =
           map_of (ledger_of w (st_fs s)) (contractName a)"
    and "js_truthy (js_get (ledger_of w (st_fs s)) (contractName a))"
    and "getContractAt w (abi a) (js_get (ledger_of w (st_fs s)) (contractName a)) = Inr c"
    and "\<exists>impl. getImplementationAddress w (js_get (ledger_of w (st_fs s)) (contractName a)) =
                  Inr impl \<and>
            map_of (ledger_of w (st_fs (snd (upgradeContract w n args opts s))))
              (implementation_key (contractName a)) = Some impl"
proof -
  from upgradeContract_ledger [OF ok art] obtain impl where
    impl: "getImplementationAddress w (js_get (ledger_of w (st_fs s)) (contractName a)) = Inr impl"
    and after: "ledger_of w (st_fs (snd (upgradeContract w n args opts s))) =
      AList.update (implementation_key (contractName a)) impl (ledger_of w (st_fs s))"
    by blast
  show "map_of (ledger_of w (st_fs (snd (upgradeContract w n args opts s)))) (contractName a) =
      map_of (ledger_of w (st_fs s)) (contractName a)"
    unfolding after by (simp add: update_conv')
  from upgradeContract_steps [OF ok] art
  show "js_truthy (js_get (ledger_of w (st_fs s)) (contractName a))"
    and "getContractAt w (abi a) (js_get (ledger_of w (st_fs s)) (contractName a)) = Inr c"
    by auto
  have "map_of (ledger_of w (st_fs (snd (upgradeContract w n args opts s))))
      (implementation_key (contractName a)) = Some impl"
    unfolding after by (simp add: update_conv')
  with impl show "\<exists>impl. getImplementationAddress w
      (js_get (ledger_of w (st_fs s)) (contractName a)) = Inr impl \<and>
      map_of (ledger_of w (st_fs (snd (upgradeContract w n args opts s))))
        (implementation_key (contractName a)) = Some impl"
    by blast
qed

lemma upgrade_success_ordinary_name:
  assumes ok: "fst (upgradeContract w n args opts s) = Inr c"
    and art: "loadArtifact w n = Inr a"
    and own: "ordinary_name (contractName a) \<or>
              map_of (ledger_of w (st_fs s)) (contractName a) \<noteq> None"
  shows "\<exists>proxy impl.
           map_of (ledger_of w (st_fs s)) (contractName a) = Some proxy \<and>
           map_of (ledger_of w (st_fs (snd (upgradeContract w n args opts s)))) (contractName a) =
             Some proxy \<and>
           getContractAt w (abi a) (Address proxy) = Inr c \<and>
           getImplementationAddress w (Address proxy) = Inr impl \<and>
           map_of (ledger_of w (st_fs (snd (upgradeContract w n args opts s))))
             (implementation_key (contractName a)) = Some impl"
proof -
  note facts = upgrade_success_facts [OF ok art]
  from js_truthy_own [OF facts(2) own] obtain proxy where
    proxy: "map_of (ledger_of w (st_fs s)) (contractName a) = Some proxy"
    and read: "js_get (ledger_of w (st_fs s)) (contractName a) = Address proxy"
    by blast
  from facts(1,3,4) show ?thesis
    unfolding read proxy by blast
qed

subsection \<open>Names read from the prototype\<close>

text \<open>
  C4 does not hold of the code for a contract named after a member of
  \<^verbatim>\<open>Object.prototype\<close>.  With \<^verbatim>\<open>options.upgradable\<close> set and a ledger that has no
  entry for \<open>toString\<close>, \<^verbatim>\<open>deployLog[contractName]\<close> is the inherited function, which
  is truthy: the test for a missing proxy address passes, \<^verbatim>\<open>upgradeProxy\<close> is submitted
  with that value and the ledger file is written.
\<close>

theorem upgrade_inherited_name_submits:
  "truthy_bool (optional upgradable (Some upgradable_options)) \<and>
   loadArtifact testnet_world ''toString'' = Inr toString_artifact \<and>
   map_of (ledger_of testnet_world (st_fs fresh_state)) ''toString'' = None \<and>
   js_get (ledger_of testnet_world (st_fs fresh_state)) ''toString'' = Inherited ''toString'' \<and>
   fst (upgradeContract testnet_world ''toString'' None (Some upgradable_options) fresh_state) \<noteq>
     Inl ProxyNotFound \<and>
   submissions (snd (upgradeContract testnet_world ''toString'' None (Some upgradable_options)
     fresh_state)) = [Call_upgradeProxy (Inherited ''toString'') ''toString''] \<and>
   ledger_of testnet_world (st_fs (snd (upgradeContract testnet_world ''toString'' None
     (Some upgradable_options) fresh_state))) = [(''toString_Implementation'', ''0xI2'')]"
  by (simp add: eval_defs)


subsection \<open>The upgradable flag\<close>

text \<open>
  C5, as stated, does not hold: the flag \<^verbatim>\<open>options.upgradable\<close> is tested in the
  \<^verbatim>\<open>else\<close> branch that follows the balance guard, so the resolver, the fee estimate,
  the balance query and the rendering of the constructor arguments for the log come
  first.  Without the flag, a missing artifact is reported as such, a low balance is
  reported as such, a bigint among the arguments makes \<^verbatim>\<open>JSON.stringify\<close> throw, and on
  a run that gets through, three collaborator calls precede the error.
\<close>

theorem upgrade_flag_first_counterexample:
  "\<not> truthy_bool (optional upgradable None) \<and>
   fst (upgradeContract testnet_world ''Missing'' None None fresh_state) =
     Inl (ArtifactNotFound compile_hint) \<and>
   fst (upgradeContract poor_world ''Token'' None None token_state) =
     Inl (InsufficientBalance 100 ''0x3661'' 10) \<and>
   fst (upgradeContract testnet_world ''Token'' (Some [BigInt_arg 1]) None token_state) =
     Inl StringifyTypeError \<and>
   fst (upgradeContract testnet_world ''Token'' None None token_state) =
     Inl UpgradeRequiresUpgradableFlag \<and>
   st_calls (snd (upgradeContract testnet_world ''Token'' None None token_state)) =
     [Call_loadArtifact ''Token'', Call_estimateDeployFee ''Token'', Call_getBalance ''0x3661'']"
  by (simp add: eval_defs)

text \<open>
  C5, amended.  An \<^verbatim>\<open>upgradeContract\<close> call without \<^verbatim>\<open>options.upgradable\<close> always
  fails, submits no transaction and writes no file; the flag is checked after the
  artifact is resolved, the fee estimated, the balance guard passed and the constructor
  arguments rendered for the log, and once these have succeeded the error is the
  upgradable-flag error.
\<close>

theorem upgrade_flag_checked_after_guard:
  assumes flag: "\<not> truthy_bool (optional upgradable opts)"
  shows "(\<exists>e. fst (upgradeContract w n args opts s) = Inl e) \<and>
         fs_files (st_fs (snd (upgradeContract w n args opts s))) = fs_files (st_fs s) \<and>
         submissions (snd (upgradeContract w n args opts s)) = submissions s \<and>
         (\<forall>p l wl a fee balance rendered.
            fst (createOrGetDeployLog (zkLinkRoot w) (network_name w) s) = Inr (p, l) \<and>
            wallet_or_default w opts = Inr wl \<and> loadArtifact w n = Inr a \<and>
            estimateDeployFee w a (or_empty args) = Inr fee \<and>
            getBalance w wl = Inr balance \<and> \<not> balance < fee \<and>
            JSON_stringify_arguments args = Inr rendered \<longrightarrow>
            fst (upgradeContract w n args opts s) = Inl UpgradeRequiresUpgradableFlag \<and>
            st_calls (snd (upgradeContract w n args opts s)) =
              st_calls s @ [Call_loadArtifact n, Call_estimateDeployFee (contractName a),
                            Call_getBalance (wallet_address wl)])"
proof -
  have general: "(\<exists>e. fst (upgradeContract w n args opts s) = Inl e) \<and>
         fs_files (st_fs (snd (upgradeContract w n args opts s))) = fs_files (st_fs s) \<and>
         submissions (snd (upgradeContract w n args opts s)) = submissions s"
    using flag by (intro upgradeContract_blocked) simp
  have "fst (upgradeContract w n args opts s) = Inl UpgradeRequiresUpgradableFlag \<and>
        st_calls (snd (upgradeContract w n args opts s)) =
          st_calls s @ [Call_loadArtifact n, Call_estimateDeployFee (contractName a),
                        Call_getBalance (wallet_address wl)]"
    if load: "fst (createOrGetDeployLog (zkLinkRoot w) (network_name w) s) = Inr (p, l)"
      and pre: "wallet_or_default w opts = Inr wl" "loadArtifact w n = Inr a"
        "estimateDeployFee w a (or_empty args) = Inr fee"
        "getBalance w wl = Inr balance" "\<not> balance < fee"
        "JSON_stringify_arguments args = Inr rendered"
    for p l wl a fee balance rendered
  proof -
    from load_split [OF load] obtain s0 where
      s0: "createOrGetDeployLog (zkLinkRoot w) (network_name w) s = (Inr (p, l), s0)"
      and c0: "st_calls s0 = st_calls s"
      by blast
    with pre flag show ?thesis
      by (simp add: upgradeContract_def run_defs)
  qed
  with general show ?thesis by blast
qed

theorem upgrade_flag_checked_after_guard_witness:
  "\<not> truthy_bool (optional upgradable None) \<and>
   JSON_stringify_arguments (Some [Json_arg ''7'']) = Inr (Some [''7'']) \<and>
   fst (upgradeContract testnet_world ''Token'' (Some [Json_arg ''7'']) None token_state) =
     Inl UpgradeRequiresUpgradableFlag \<and>
   fs_files (st_fs (snd (upgradeContract testnet_world ''Token'' (Some [Json_arg ''7'']) None
     token_state))) = fs_files (st_fs token_state) \<and>
   submissions (snd (upgradeContract testnet_world ''Token'' (Some [Json_arg ''7'']) None
     token_state)) = submissions token_state"
proof -
  have flag: "\<not> truthy_bool (optional upgradable None)"
    by (simp add: eval_defs)
  have rendered: "JSON_stringify_arguments (Some [Json_arg ''7'']) = Inr (Some [''7''])"
    by (simp add: JSON_stringify_arguments_def)
  have pre: "fst (createOrGetDeployLog (zkLinkRoot testnet_world) (network_name testnet_world)
               token_state) =
               Inr (''/repo/deploy/log/testnet.log'',
                    [(''Token'', ''0xP1''), (''Token_Implementation'', ''0xI1''),
                     (''Other'', ''0xAA'')]) \<and>
            wallet_or_default testnet_world None = Inr testnet_wallet \<and>
            loadArtifact testnet_world ''Token'' = Inr token_artifact \<and>
            estimateDeployFee testnet_world token_artifact (or_empty (Some [Json_arg ''7''])) =
              Inr 100 \<and>
            getBalance testnet_world testnet_wallet = Inr 1000 \<and> \<not> (1000::int) < 100"
    by (simp add: eval_defs)
  note inst = upgrade_flag_checked_after_guard [OF flag, of testnet_world "''Token''"
      "Some [Json_arg ''7'']" token_state]
  from inst have unchanged:
    "fs_files (st_fs (snd (upgradeContract testnet_world ''Token'' (Some [Json_arg ''7'']) None
       token_state))) = fs_files (st_fs token_state)"
    "submissions (snd (upgradeContract testnet_world ''Token'' (Some [Json_arg ''7'']) None
       token_state)) = submissions token_state"
    by blast+
  from inst pre rendered
  have "fst (upgradeContract testnet_world ''Token'' (Some [Json_arg ''7'']) None token_state) =
     Inl UpgradeRequiresUpgradableFlag"
    by blast
  with unchanged flag rendered show ?thesis by simp
qed

section \<open>What a call does to the ledger\<close>

text \<open>
  C10.  A \<^verbatim>\<open>deployContract\<close> or \<^verbatim>\<open>upgradeContract\<close> call for a contract leaves every
  ledger entry whose key is neither the contract's name nor \<open>name_Implementation\<close> as
  it was.  This holds whatever the outcome of the call, so in particular when it
  succeeds.
\<close>

theorem other_entries_survive:
  assumes art: "loadArtifact w n = Inr a"
    and k1: "k \<noteq> contractName a"
    and k2: "k \<noteq> implementation_key (contractName a)"
  shows "map_of (ledger_of w (st_fs (snd (deployContract w n args opts iargs s)))) k =
           map_of (ledger_of w (st_fs s)) k \<and>
         map_of (ledger_of w (st_fs (snd (upgradeContract w n args opts s)))) k =
           map_of (ledger_of w (st_fs s)) k"
proof
  from deployContract_outcome [of w n args opts iargs s]
  show "map_of (ledger_of w (st_fs (snd (deployContract w n args opts iargs s)))) k =
          map_of (ledger_of w (st_fs s)) k"
  proof (elim disjE exE conjE)
    assume "fs_files (st_fs (snd (deployContract w n args opts iargs s))) = fs_files (st_fs s)"
    from ledger_of_cong [OF this] show ?thesis by simp
  next
    fix a' addr
    assume "loadArtifact w n = Inr a'"
      and "ledger_of w (st_fs (snd (deployContract w n args opts iargs s))) =
             js_set (contractName a') addr (ledger_of w (st_fs s))"
    with art k1 show ?thesis by (simp add: map_of_js_set_other)
  next
    fix a' addr impl
    assume "loadArtifact w n = Inr a'"
      and "ledger_of w (st_fs (snd (deployContract w n args opts iargs s))) =
             AList.update (implementation_key (contractName a')) impl
               (js_set (contractName a') addr (ledger_of w (st_fs s)))"
    with art k1 k2 show ?thesis by (simp add: update_conv' map_of_js_set_other)
  qed
next
  from upgradeContract_outcome [of w n args opts s]
  show "map_of (ledger_of w (st_fs (snd (upgradeContract w n args opts s)))) k =
          map_of (ledger_of w (st_fs s)) k"
  proof (elim disjE exE conjE)
    assume "fs_files (st_fs (snd (upgradeContract w n args opts s))) = fs_files (st_fs s)"
    from ledger_of_cong [OF this] show ?thesis by simp
  next
    fix a' impl
    assume "loadArtifact w n = Inr a'"
      and "ledger_of w (st_fs (snd (upgradeContract w n args opts s))) =
             AList.update (implementation_key (contractName a')) impl (ledger_of w (st_fs s))"
    with art k2 show ?thesis by (simp add: update_conv')
  qed
qed

theorem other_entries_survive_witness:
  "fst (deployContract testnet_world ''Token'' None (Some upgradable_options) None token_state) =
     Inr \<lparr>target = ''0xP1'', interface = ''[]''\<rparr> \<and>
   fst (upgradeContract testnet_world ''Token'' None (Some upgradable_options) token_state) =
     Inr \<lparr>target = ''0xP1'', interface = ''[]''\<rparr> \<and>
   map_of (ledger_of testnet_world (st_fs token_state)) ''Other'' = Some ''0xAA'' \<and>
   map_of (ledger_of testnet_world (st_fs (snd (deployContract testnet_world ''Token'' None
     (Some upgradable_options) None token_state)))) ''Other'' = Some ''0xAA'' \<and>
   map_of (ledger_of testnet_world (st_fs (snd (upgradeContract testnet_world ''Token'' None
     (Some upgradable_options) token_state)))) ''Other'' = Some ''0xAA''"
proof -
  have art: "loadArtifact testnet_world ''Token'' = Inr token_artifact"
    by (simp add: eval_defs)
  have k1: "''Other'' \<noteq> contractName token_artifact"
    by (simp add: token_artifact_def)
  have k2: "''Other'' \<noteq> implementation_key (contractName token_artifact)"
    by (simp add: token_artifact_def implementation_key_def implementation_suffix_def)
  have before: "map_of (ledger_of testnet_world (st_fs token_state)) ''Other'' = Some ''0xAA''"
    by (simp add: eval_defs)
  have ok: "fst (deployContract testnet_world ''Token'' None (Some upgradable_options) None
      token_state) = Inr \<lparr>target = ''0xP1'', interface = ''[]''\<rparr>"
    "fst (upgradeContract testnet_world ''Token'' None (Some upgradable_options) token_state) =
      Inr \<lparr>target = ''0xP1'', interface = ''[]''\<rparr>"
    by (simp_all add: eval_defs)
  from other_entries_survive [OF art k1 k2, of None "Some upgradable_options" None token_state]
    before ok
  show ?thesis by simp
qed

text \<open>
  C2, as stated, does not hold: the verification request is awaited with no
  \<^verbatim>\<open>try\<close> around it, so its failure reaches the caller.  On a network whose
  explorer rejects the request, the contract is deployed and entered in the ledger,
  and \<^verbatim>\<open>deployContract\<close> throws the explorer's error instead of returning the handle.
\<close>

theorem verification_failure_counterexample:
  "\<not> truthy_bool (optional noVerify None) \<and>
   deploy explorer_down_world token_artifact None = Inr \<lparr>target = ''0xD1'', interface = ''[]''\<rparr> \<and>
   fst (deployContract explorer_down_world ''Token'' None None None fresh_state) =
     Inl (Foreign (Js_error (Some ''verification request failed'') 1)) \<and>
   ledger_of explorer_down_world
     (st_fs (snd (deployContract explorer_down_world ''Token'' None None None fresh_state))) =
     [(''Token'', ''0xD1'')]"
  by (simp add: eval_defs)

text \<open>
  C2, amended.  When a deployment has succeeded and its ledger has been written,
  \<^verbatim>\<open>options.noVerify\<close> is unset and the network has a verification URL, a failure of
  the verification request is thrown on to the caller as it is, so \<^verbatim>\<open>deployContract\<close>
  returns no handle; the ledger entry written for the deployment stays in the ledger
  file.  (For a contract named \<open>__proto__\<close> the assignment writes no entry, and nothing
  is said of the ledger.)
\<close>

theorem verification_failure_propagates:
  assumes load: "fst (createOrGetDeployLog (zkLinkRoot w) (network_name w) s) = Inr (p, l)"
    and wal: "wallet_or_default w opts = Inr wl"
    and art: "loadArtifact w n = Inr a"
    and fee: "estimateDeployFee w a (or_empty args) = Inr fee"
    and bal: "getBalance w wl = Inr balance"
    and enough: "\<not> balance < fee"
    and shown: "JSON_stringify_arguments args = Inr rendered"
    and dep: "(if truthy_bool (optional upgradable opts)
               then deployProxy w a iargs (optional kind opts) (optional unsafeAllow opts) args
               else deploy w a args) = Inr c"
    and enc: "encodeDeploy w c args = Inr cargs"
    and impl: "truthy_bool (optional upgradable opts) \<longrightarrow>
                 getProvider w = Inr provider \<and>
                 getImplementationAddress w (Address (target c)) = Inr i"
    and writable: "ledger_writable w s"
    and wanted: "\<not> truthy_bool (optional noVerify opts)" "truthy_string (network_verifyURL w)"
    and down: "run_verify w
                 \<lparr>vr_address = target c, vr_contract = sourceName a @ '':'' @ contractName a,
                  vr_constructorArguments = cargs, vr_bytecode = bytecode a\<rparr> = Inl e"
  shows "fst (deployContract w n args opts iargs s) = Inl (Foreign e) \<and>
         (contractName a \<noteq> ''__proto__'' \<longrightarrow>
            map_of (ledger_of w (st_fs (snd (deployContract w n args opts iargs s))))
              (contractName a) = Some (target c))"
proof -
  from load_split [OF load] obtain s0 where
    s0: "createOrGetDeployLog (zkLinkRoot w) (network_name w) s = (Inr (p, l), s0)"
    by blast
  from load_ok [OF load] have p: "p = deployLogPath_of (zkLinkRoot w) (network_name w)"
    by simp
  have can_write: "write_error (deployLogPath_of (zkLinkRoot w) (network_name w)) (st_fs s0) = None"
    using writable s0 by (simp add: ledger_writable_def)
  note facts = s0 [unfolded p] wal art fee bal enough shown enc wanted down can_write
  show ?thesis
  proof (cases "truthy_bool (optional upgradable opts)")
    case True
    with dep impl have
      "deployProxy w a iargs (optional kind opts) (optional unsafeAllow opts) args = Inr c"
      "getProvider w = Inr provider" "getImplementationAddress w (Address (target c)) = Inr i"
      by simp_all
    with True facts show ?thesis
      by (simp add: deployContract_def run_defs ledger_of_write update_conv' js_set_plain)
  next
    case False
    with dep have "deploy w a args = Inr c" by simp
    with False facts show ?thesis
      by (simp add: deployContract_def run_defs ledger_of_write update_conv' js_set_plain)
  qed
qed

theorem verification_failure_propagates_witness:
  "\<not> truthy_bool (optional noVerify None) \<and>
   truthy_string (network_verifyURL explorer_down_world) \<and>
   ledger_writable explorer_down_world fresh_state \<and>
   fst (deployContract explorer_down_world ''Token'' None None None fresh_state) =
     Inl (Foreign (Js_error (Some ''verification request failed'') 1)) \<and>
   map_of (ledger_of explorer_down_world
     (st_fs (snd (deployContract explorer_down_world ''Token'' None None None fresh_state))))
     ''Token'' = Some ''0xD1''"
proof -
  let ?c = "\<lparr>target = ''0xD1'', interface = ''[]''\<rparr>"
  have load: "fst (createOrGetDeployLog (zkLinkRoot explorer_down_world)
      (network_name explorer_down_world) fresh_state) = Inr (''/repo/deploy/log/testnet.log'', [])"
    by (simp add: eval_defs)
  have wal: "wallet_or_default explorer_down_world None = Inr testnet_wallet"
    by (simp add: eval_defs)
  have art: "loadArtifact explorer_down_world ''Token'' = Inr token_artifact"
    by (simp add: eval_defs)
  have fee: "estimateDeployFee explorer_down_world token_artifact (or_empty None) = Inr 100"
    by (simp add: eval_defs)
  have bal: "getBalance explorer_down_world testnet_wallet = Inr 1000"
    by (simp add: eval_defs)
  have enough: "\<not> (1000::int) < 100" by simp
  have shown: "JSON_stringify_arguments None = Inr None"
    by (simp add: JSON_stringify_arguments_def)
  have dep: "(if truthy_bool (optional upgradable None)
              then deployProxy explorer_down_world token_artifact None (optional kind None)
                     (optional unsafeAllow None) None
              else deploy explorer_down_world token_artifact None) = Inr ?c"
    by (simp add: eval_defs)
  have enc: "encodeDeploy explorer_down_world ?c None = Inr ''0x''"
    by (simp add: eval_defs)
  have impl: "truthy_bool (optional upgradable None) \<longrightarrow>
      getProvider explorer_down_world = Inr ''http://localhost:3050'' \<and>
      getImplementationAddress explorer_down_world (Address (target ?c)) = Inr ''0xI2''"
    by (simp add: eval_defs)
  have writable: "ledger_writable explorer_down_world fresh_state"
    by (simp add: eval_defs)
  have wanted: "\<not> truthy_bool (optional noVerify None)"
      "truthy_string (network_verifyURL explorer_down_world)"
    by (simp_all add: eval_defs)
  have down: "run_verify explorer_down_world
      \<lparr>vr_address = target ?c,
       vr_contract = sourceName token_artifact @ '':'' @ contractName token_artifact,
       vr_constructorArguments = ''0x'', vr_bytecode = bytecode token_artifact\<rparr> =
      Inl (Js_error (Some ''verification request failed'') 1)"
    by (simp add: eval_defs)
  have name: "contractName token_artifact = ''Token''"
    by (simp add: token_artifact_def)
  from verification_failure_propagates
    [OF load wal art fee bal enough shown dep enc impl writable wanted down] wanted writable
  show ?thesis
    unfolding name by simp
qed

text \<open>
  C6, as stated, does not hold, in two ways.  A deployment that is not upgradable
  leaves an entry \<open>name_Implementation\<close> of an earlier upgradable deployment where it
  is, so the key is present although the deployment was not upgradable.  And a
  contract whose own name ends in \<open>_Implementation\<close> is entered under that name with
  no entry for the name without the suffix, so the invariant is not preserved.
\<close>

theorem deploy_ledger_counterexample:
  "\<not> truthy_bool (optional upgradable None) \<and>
   fst (deployContract testnet_world ''Token'' None None None token_state) =
     Inr \<lparr>target = ''0xD1'', interface = ''[]''\<rparr> \<and>
   map_of (ledger_of testnet_world
     (st_fs (snd (deployContract testnet_world ''Token'' None None None token_state))))
     (implementation_key ''Token'') = Some ''0xI1'' \<and>
   companion_invariant (ledger_of testnet_world (st_fs fresh_state)) \<and>
   fst (deployContract testnet_world ''Token_Implementation'' None None None fresh_state) =
     Inr \<lparr>target = ''0xD1'', interface = ''[]''\<rparr> \<and>
   ledger_of testnet_world
     (st_fs (snd (deployContract testnet_world ''Token_Implementation'' None None None
        fresh_state))) = [(''Token_Implementation'', ''0xD1'')] \<and>
   \<not> companion_invariant (ledger_of testnet_world
     (st_fs (snd (deployContract testnet_world ''Token_Implementation'' None None None
        fresh_state))))"
  by (simp add: eval_defs companion_invariant_def strip_implementation_def)

text \<open>
  C6, amended.  After a successful \<^verbatim>\<open>deployContract\<close> call for a contract whose name
  is not \<open>__proto__\<close>, the ledger maps the name to the deployed address.  After every
  successful call, if the deployment was upgradable the ledger maps
  \<open>name_Implementation\<close> to the implementation address read back from the proxy, and if
  it was not, the entry \<open>name_Implementation\<close> is what it was before the call.  The
  invariant that \<open>name_Implementation\<close> is present only when \<open>name\<close> is present is
  preserved by every \<^verbatim>\<open>upgradeContract\<close> call for a name that has a ledger entry or is
  not the name of a member of \<^verbatim>\<open>Object.prototype\<close>, and by every \<^verbatim>\<open>deployContract\<close> call
  for a name that does not end in \<open>_Implementation\<close> and is not \<open>__proto__\<close>.
\<close>

theorem deploy_records_address:
  "(\<forall>c a. fst (deployContract w n args opts iargs s) = Inr c \<and> loadArtifact w n = Inr a \<longrightarrow>
      (contractName a \<noteq> ''__proto__'' \<longrightarrow>
         map_of (ledger_of w (st_fs (snd (deployContract w n args opts iargs s))))
           (contractName a) = Some (target c)) \<and>
      (if truthy_bool (optional upgradable opts)
       then \<exists>impl. getImplementationAddress w (Address (target c)) = Inr impl \<and>
              map_of (ledger_of w (st_fs (snd (deployContract w n args opts iargs s))))
                (implementation_key (contractName a)) = Some impl
       else map_of (ledger_of w (st_fs (snd (deployContract w n args opts iargs s))))
              (implementation_key (contractName a)) =
            map_of (ledger_of w (st_fs s)) (implementation_key (contractName a)))) \<and>
   (companion_invariant (ledger_of w (st_fs s)) \<and>
    (\<forall>a. loadArtifact w n = Inr a \<longrightarrow>
       ordinary_name (contractName a) \<or>
       map_of (ledger_of w (st_fs s)) (contractName a) \<noteq> None) \<longrightarrow>
      companion_invariant (ledger_of w (st_fs (snd (upgradeContract w n args opts s))))) \<and>
   (companion_invariant (ledger_of w (st_fs s)) \<and>
    (\<forall>a. loadArtifact w n = Inr a \<longrightarrow>
       strip_implementation (contractName a) = None \<and> contractName a \<noteq> ''__proto__'') \<longrightarrow>
      companion_invariant (ledger_of w (st_fs (snd (deployContract w n args opts iargs s)))))"
proof (intro conjI allI impI)
  fix c a
  assume h: "fst (deployContract w n args opts iargs s) = Inr c \<and> loadArtifact w n = Inr a"
  then have ok: "fst (deployContract w n args opts iargs s) = Inr c"
    and art: "loadArtifact w n = Inr a"
    by simp_all
  note after = deployContract_ledger [OF ok art]
  from deployContract_steps [OF ok] have readback:
    "truthy_bool (optional upgradable opts) \<Longrightarrow>
       \<exists>impl. getImplementationAddress w (Address (target c)) = Inr impl"
    by auto
  {
    assume plain: "contractName a \<noteq> ''__proto__''"
    show "map_of (ledger_of w (st_fs (snd (deployContract w n args opts iargs s))))
        (contractName a) = Some (target c)"
    proof (cases "truthy_bool (optional upgradable opts)")
      case True
      from readback [OF True] obtain impl where
        "getImplementationAddress w (Address (target c)) = Inr impl" ..
      with after True plain show ?thesis by (simp add: update_conv' js_set_plain)
    next
      case False
      with after plain show ?thesis by (simp add: update_conv' js_set_plain)
    qed
  }
  show "if truthy_bool (optional upgradable opts)
       then \<exists>impl. getImplementationAddress w (Address (target c)) = Inr impl \<and>
              map_of (ledger_of w (st_fs (snd (deployContract w n args opts iargs s))))
                (implementation_key (contractName a)) = Some impl
       else map_of (ledger_of w (st_fs (snd (deployContract w n args opts iargs s))))
              (implementation_key (contractName a)) =
            map_of (ledger_of w (st_fs s)) (implementation_key (contractName a))"
  proof (cases "truthy_bool (optional upgradable opts)")
    case True
    from readback [OF True] obtain impl where
      "getImplementationAddress w (Address (target c)) = Inr impl" ..
    with after True show ?thesis by (simp add: update_conv')
  next
    case False
    with after show ?thesis by (simp add: map_of_js_set_other)
  qed
next
  assume h: "companion_invariant (ledger_of w (st_fs s)) \<and>
    (\<forall>a. loadArtifact w n = Inr a \<longrightarrow>
       ordinary_name (contractName a) \<or> map_of (ledger_of w (st_fs s)) (contractName a) \<noteq> None)"
  then have inv: "companion_invariant (ledger_of w (st_fs s))"
    and own: "\<And>a. loadArtifact w n = Inr a \<Longrightarrow>
       ordinary_name (contractName a) \<or> map_of (ledger_of w (st_fs s)) (contractName a) \<noteq> None"
    by simp_all
  from upgradeContract_outcome [of w n args opts s]
  show "companion_invariant (ledger_of w (st_fs (snd (upgradeContract w n args opts s))))"
  proof (elim disjE exE conjE)
    assume "fs_files (st_fs (snd (upgradeContract w n args opts s))) = fs_files (st_fs s)"
    from ledger_of_cong [OF this] inv show ?thesis by simp
  next
    fix a impl
    assume art: "loadArtifact w n = Inr a"
      and truthy: "js_truthy (js_get (ledger_of w (st_fs s)) (contractName a))"
      and after: "ledger_of w (st_fs (snd (upgradeContract w n args opts s))) =
             AList.update (implementation_key (contractName a)) impl (ledger_of w (st_fs s))"
    from js_truthy_own [OF truthy own [OF art]] obtain proxy where
      "map_of (ledger_of w (st_fs s)) (contractName a) = Some proxy" by blast
    from companion_invariant_upgrade [OF inv this] after show ?thesis by simp
  qed
next
  assume h: "companion_invariant (ledger_of w (st_fs s)) \<and>
    (\<forall>a. loadArtifact w n = Inr a \<longrightarrow>
       strip_implementation (contractName a) = None \<and> contractName a \<noteq> ''__proto__'')"
  then have inv: "companion_invariant (ledger_of w (st_fs s))"
    and plain: "\<And>a. loadArtifact w n = Inr a \<Longrightarrow> strip_implementation (contractName a) = None"
    and noproto: "\<And>a. loadArtifact w n = Inr a \<Longrightarrow> contractName a \<noteq> ''__proto__''"
    by simp_all
  from deployContract_outcome [of w n args opts iargs s]
  show "companion_invariant (ledger_of w (st_fs (snd (deployContract w n args opts iargs s))))"
  proof (elim disjE exE conjE)
    assume "fs_files (st_fs (snd (deployContract w n args opts iargs s))) = fs_files (st_fs s)"
    from ledger_of_cong [OF this] inv show ?thesis by simp
  next
    fix a addr
    assume art: "loadArtifact w n = Inr a"
      and "ledger_of w (st_fs (snd (deployContract w n args opts iargs s))) =
             js_set (contractName a) addr (ledger_of w (st_fs s))"
    with companion_invariant_deploy(1) [OF inv plain [OF art] noproto [OF art]]
    show ?thesis by simp
  next
    fix a addr impl
    assume art: "loadArtifact w n = Inr a"
      and "ledger_of w (st_fs (snd (deployContract w n args opts iargs s))) =
             AList.update (implementation_key (contractName a)) impl
               (js_set (contractName a) addr (ledger_of w (st_fs s)))"
    with companion_invariant_deploy(2) [OF inv plain [OF art] noproto [OF art]]
    show ?thesis by simp
  qed
qed

theorem deploy_records_address_witness:
  "fst (deployContract testnet_world ''Token'' None (Some upgradable_options) None token_state) =
     Inr \<lparr>target = ''0xP1'', interface = ''[]''\<rparr> \<and>
   truthy_bool (optional upgradable (Some upgradable_options)) \<and>
   map_of (ledger_of testnet_world (st_fs (snd (deployContract testnet_world ''Token'' None
     (Some upgradable_options) None token_state)))) ''Token'' = Some ''0xP1'' \<and>
   map_of (ledger_of testnet_world (st_fs (snd (deployContract testnet_world ''Token'' None
     (Some upgradable_options) None token_state)))) (implementation_key ''Token'') =
     Some ''0xI2'' \<and>
   companion_invariant (ledger_of testnet_world (st_fs token_state)) \<and>
   strip_implementation ''Token'' = None \<and> ordinary_name ''Token'' \<and>
   companion_invariant (ledger_of testnet_world (st_fs (snd (deployContract testnet_world
     ''Token'' None (Some upgradable_options) None token_state)))) \<and>
   companion_invariant (ledger_of testnet_world (st_fs (snd (upgradeContract testnet_world
     ''Token'' None (Some upgradable_options) token_state))))"
proof -
  let ?c = "\<lparr>target = ''0xP1'', interface = ''[]''\<rparr>"
  have ok: "fst (deployContract testnet_world ''Token'' None (Some upgradable_options) None
      token_state) = Inr ?c"
    by (simp add: eval_defs)
  have art: "loadArtifact testnet_world ''Token'' = Inr token_artifact"
    by (simp add: eval_defs)
  have upg: "truthy_bool (optional upgradable (Some upgradable_options))"
    by (simp add: eval_defs)
  have inv: "companion_invariant (ledger_of testnet_world (st_fs token_state))"
    by (simp add: eval_defs companion_invariant_def strip_implementation_def)
  have plain: "strip_implementation ''Token'' = None"
    by (simp add: strip_implementation_def implementation_suffix_def)
  have ordinary: "ordinary_name ''Token''"
    by (simp add: ordinary_name_def object_prototype_members_def)
  have noproto: "''Token'' \<noteq> ''__proto__''" by simp
  have name: "contractName token_artifact = ''Token''"
    by (simp add: token_artifact_def)
  have own_all: "\<forall>a. loadArtifact testnet_world ''Token'' = Inr a \<longrightarrow>
      ordinary_name (contractName a) \<or>
      map_of (ledger_of testnet_world (st_fs token_state)) (contractName a) \<noteq> None"
    using art ordinary name by simp
  have plain_all: "\<forall>a. loadArtifact testnet_world ''Token'' = Inr a \<longrightarrow>
      strip_implementation (contractName a) = None \<and> contractName a \<noteq> ''__proto__''"
    using art plain name by simp
  have readback: "getImplementationAddress testnet_world q = Inr ''0xI2''" for q
    by (simp add: testnet_world_def)
  note inst = deploy_records_address [of testnet_world "''Token''" None "Some upgradable_options"
      None token_state]
  from inst ok art have entries:
    "(contractName token_artifact \<noteq> ''__proto__'' \<longrightarrow>
       map_of (ledger_of testnet_world (st_fs (snd (deployContract testnet_world ''Token'' None
         (Some upgradable_options) None token_state)))) (contractName token_artifact) =
         Some (target ?c)) \<and>
     (if truthy_bool (optional upgradable (Some upgradable_options))
      then \<exists>impl. getImplementationAddress testnet_world (Address (target ?c)) = Inr impl \<and>
             map_of (ledger_of testnet_world (st_fs (snd (deployContract testnet_world ''Token''
               None (Some upgradable_options) None token_state))))
               (implementation_key (contractName token_artifact)) = Some impl
      else map_of (ledger_of testnet_world (st_fs (snd (deployContract testnet_world ''Token''
               None (Some upgradable_options) None token_state))))
               (implementation_key (contractName token_artifact)) =
           map_of (ledger_of testnet_world (st_fs token_state))
               (implementation_key (contractName token_artifact)))"
    by blast
  from inst inv own_all plain_all have kept:
    "companion_invariant (ledger_of testnet_world (st_fs (snd (deployContract testnet_world
       ''Token'' None (Some upgradable_options) None token_state))))"
    "companion_invariant (ledger_of testnet_world (st_fs (snd (upgradeContract testnet_world
       ''Token'' None (Some upgradable_options) token_state))))"
    by blast+
  from entries upg noproto have
    "map_of (ledger_of testnet_world (st_fs (snd (deployContract testnet_world ''Token'' None
       (Some upgradable_options) None token_state)))) ''Token'' = Some ''0xP1''"
    "map_of (ledger_of testnet_world (st_fs (snd (deployContract testnet_world ''Token'' None
       (Some upgradable_options) None token_state)))) (implementation_key ''Token'') =
       Some ''0xI2''"
    unfolding name readback by auto
  with ok upg inv plain ordinary kept show ?thesis by simp
qed

end
